theory Spec2Isabelle
  imports Complex_Main "HOL-Library.Sublist"
begin

section \<open>Strings and numbers as Python formats them\<close>

text \<open>
  Status strings are lists of 8-bit characters. \<open>upper\<close> is Python's \<open>str.upper()\<close> on
  ASCII text: the letters a..z move to A..Z, every other character stays as it is.
\<close>

definition upper_char :: "char \<Rightarrow> char" where
  "upper_char c =
     (case map_of (zip ''abcdefghijklmnopqrstuvwxyz'' ''ABCDEFGHIJKLMNOPQRSTUVWXYZ'') c of
        None \<Rightarrow> c
      | Some u \<Rightarrow> u)"

definition upper :: "string \<Rightarrow> string" where
  "upper s = map upper_char s"

text \<open>\<open>str(n)\<close> for an integer: decimal digits, a minus sign when negative.\<close>

definition digit_char :: "nat \<Rightarrow> char" where
  "digit_char d = ''0123456789'' ! d"

fun str_nat :: "nat \<Rightarrow> string" where
  "str_nat n = (if n < 10 then [digit_char n] else str_nat (n div 10) @ [digit_char (n mod 10)])"

declare str_nat.simps [simp del]

definition str_int :: "int \<Rightarrow> string" where
  "str_int i = (if i < 0 then CHR ''-'' # str_nat (nat (- i)) else str_nat (nat i))"

text \<open>\<open>f"{n:,}"\<close>: the digits in groups of three from the right, separated by commas.\<close>

fun group3 :: "string \<Rightarrow> string" where
  "group3 (a # b # c # d # rest) = a # b # c # CHR '','' # group3 (d # rest)"
| "group3 ds = ds"

definition fmt_commas :: "int \<Rightarrow> string" where
  "fmt_commas i =
     (if i < 0 then CHR ''-'' # rev (group3 (rev (str_nat (nat (- i)))))
      else rev (group3 (rev (str_nat (nat i)))))"

text \<open>
  \<open>int(x)\<close> on a float truncates towards zero. Clock readings and durations are reals:
  the model computes with exact arithmetic where Python computes with doubles.
\<close>

definition py_int :: "real \<Rightarrow> int" where
  "py_int x = (if 0 \<le> x then \<lfloor>x\<rfloor> else \<lceil>x\<rceil>)"

text \<open>\<open>x // d\<close> and \<open>x % d\<close> on floats, for a positive divisor.\<close>

definition fdiv :: "real \<Rightarrow> real \<Rightarrow> real" where
  "fdiv x d = of_int \<lfloor>x / d\<rfloor>"

definition fmod :: "real \<Rightarrow> real \<Rightarrow> real" where
  "fmod x d = x - d * of_int \<lfloor>x / d\<rfloor>"

definition format_elapsed_time :: "real \<Rightarrow> string" where
  "format_elapsed_time seconds =
     (if seconds < 60 then str_int (py_int seconds) @ ''s''
      else if seconds < 3600 then
        (let minutes = py_int (fdiv seconds 60); secs = py_int (fmod seconds 60)
         in str_int minutes @ ''m '' @ str_int secs @ ''s'')
      else
        (let hours = py_int (fdiv seconds 3600); minutes = py_int (fdiv (fmod seconds 3600) 60)
         in str_int hours @ ''h '' @ str_int minutes @ ''m''))"

section \<open>Document stores and the status sets (flowise_utils.py)\<close>

text \<open>
  \<open>DocumentStore\<close> is a \<open>TypedDict\<close> with \<open>total=False\<close>: every key may be absent.
  The record keeps the keys the refresher reads; an absent key is \<open>None\<close>.
\<close>

record document_store =
  ds_id :: "string option"
  ds_name :: "string option"
  ds_status :: "string option"
  ds_totalChunks :: "int option"

text \<open>\<open>d.get(key, default)\<close>.\<close>

definition get_or :: "'a option \<Rightarrow> 'a \<Rightarrow> 'a" where
  "get_or v dflt = (case v of None \<Rightarrow> dflt | Some x \<Rightarrow> x)"

definition REFRESHABLE_STATUSES :: "string set" where
  "REFRESHABLE_STATUSES = {''UPSERTED''}"

definition BUSY_STATUSES :: "string set" where
  "BUSY_STATUSES = {''SYNCING'', ''UPSERTING''}"

definition WAITING_STATUSES :: "string set" where
  "WAITING_STATUSES = {''STALE''}"

section \<open>Status classification\<close>

text \<open>
  The refresher has no classifier function of its own: the monitor loop upper-cases the
  status and walks an \<open>if/elif\<close> chain over the three sets (refreshable, busy, waiting,
  else). \<open>classify\<close> names the branch of that chain a raw status string selects.
\<close>

datatype status_bucket = Refreshable | Busy | Waiting | Unknown

definition classify :: "string \<Rightarrow> status_bucket" where
  "classify s =
     (let current_status = upper s in
      if current_status \<in> REFRESHABLE_STATUSES then Refreshable
      else if current_status \<in> BUSY_STATUSES then Busy
      else if current_status \<in> WAITING_STATUSES then Waiting
      else Unknown)"

section \<open>filter_refreshable_stores\<close>

text \<open>
  The \<open>for\<close> loop of \<open>filter_refreshable_stores\<close>, with the result list as accumulator:
  waiting and busy stores are skipped by \<open>continue\<close>, refreshable ones are appended.
\<close>

fun filter_refreshable_loop :: "document_store list \<Rightarrow> document_store list \<Rightarrow> document_store list" where
  "filter_refreshable_loop [] refreshable = refreshable"
| "filter_refreshable_loop (store # stores) refreshable =
     (let status = upper (get_or (ds_status store) ''UNKNOWN'') in
      if status \<in> WAITING_STATUSES then filter_refreshable_loop stores refreshable
      else if status \<in> BUSY_STATUSES then filter_refreshable_loop stores refreshable
      else if status \<in> REFRESHABLE_STATUSES then filter_refreshable_loop stores (refreshable @ [store])
      else filter_refreshable_loop stores refreshable)"

definition filter_refreshable_stores :: "document_store list \<Rightarrow> document_store list" where
  "filter_refreshable_stores stores = filter_refreshable_loop stores []"

section \<open>The world outside the program\<close>

text \<open>
  Configuration read from the environment: the base URL and API key of
  \<open>load_configuration\<close>, and the two module constants of the refresher,
  \<open>STATUS_CHECK_INTERVAL\<close> and \<open>MAX_REFRESH_TIMEOUT\<close> (both \<open>int(os.getenv(...))\<close>).
\<close>

record config =
  base_url :: string
  api_key :: string
  STATUS_CHECK_INTERVAL :: int
  MAX_REFRESH_TIMEOUT :: int

datatype http_method = POST | PUT

text \<open>The two JSON bodies the trigger sends: \<open>{}\<close> and \<open>{"items": []}\<close>.\<close>

datatype json_body = Empty_object | Empty_items

type_synonym http_headers = "(string \<times> string) list"

record request =
  req_method :: http_method
  req_url :: string
  req_headers :: http_headers
  req_payload :: "json_body option"

text \<open>
  What one call of \<open>session.post\<close>/\<open>session.put\<close> followed by \<open>raise_for_status\<close> can
  do inside \<open>_try_refresh_request\<close>: return a response (status, body, headers), raise
  \<open>ClientResponseError\<close> (its status, and the body and headers the handler manages to read
  from \<open>e.response\<close>, if any), or raise any other exception (its text).
\<close>

datatype exchange =
    Ok_response int string http_headers
  | Response_error int "(string \<times> http_headers) option"
  | Other_error string

text \<open>
  What one \<open>session.get\<close> of a store does inside \<open>fetch_document_store_status\<close>: the
  parsed JSON, a store object as the return type \<open>Optional[DocumentStore]\<close> says, or an
  exception (its text), which the function turns into \<open>None\<close>.
\<close>

datatype status_exchange = Status_json document_store | Status_failed string

text \<open>
  The environment of one run: the k-th reading of \<open>time.time()\<close>, the remote's answer to a
  refresh request given the requests sent before it, and its answer to the k-th status fetch.
\<close>

record env =
  now :: "nat \<Rightarrow> real"
  refresh_reply :: "request list \<Rightarrow> request \<Rightarrow> exchange"
  status_reply :: "nat \<Rightarrow> string \<Rightarrow> status_exchange"

datatype log_level = ERROR | WARNING | INFO

text \<open>
  Lines printed by the monitor, one constructor per \<open>print\<close> group, carrying the
  interpolated values: store name, elapsed text, iteration count, status, chunk counts.
\<close>

datatype message =
    Started string int
  | Timed_out string string int
  | Fetch_failed string
  | Completed string string int string int int
  | Busy_report string string int string string int
  | Waiting_report string string int int string
  | Other_report string string int int string

text \<open>
  The effects of a run so far: clock readings taken, refresh requests sent, status fetches
  issued, sleeps, printed messages and logger output. Debug-level logging only repeats
  values and steers nothing; it is left out of the trace.
\<close>

record world =
  clock_reads :: nat
  requests :: "request list"
  fetches :: nat
  slept :: "int list"
  printed :: "message list"
  logged :: "(log_level \<times> string) list"

definition time_time :: "env \<Rightarrow> world \<Rightarrow> real \<times> world" where
  "time_time e w = (now e (clock_reads w), w\<lparr>clock_reads := clock_reads w + 1\<rparr>)"

definition asyncio_sleep :: "int \<Rightarrow> world \<Rightarrow> world" where
  "asyncio_sleep d w = w\<lparr>slept := slept w @ [d]\<rparr>"

definition print_msg :: "message \<Rightarrow> world \<Rightarrow> world" where
  "print_msg m w = w\<lparr>printed := printed w @ [m]\<rparr>"

definition log_msg :: "log_level \<Rightarrow> string \<Rightarrow> world \<Rightarrow> world" where
  "log_msg l s w = w\<lparr>logged := logged w @ [(l, s)]\<rparr>"

text \<open>An f-string hole filled with an optional string: \<open>None\<close> prints as \<open>None\<close>.\<close>

definition py_str :: "string option \<Rightarrow> string" where
  "py_str v = (case v of None \<Rightarrow> ''None'' | Some s \<Rightarrow> s)"

definition get_headers :: "string \<Rightarrow> http_headers" where
  "get_headers key =
     [(''Authorization'', ''Bearer '' @ key), (''Content-Type'', ''application/json'')]"

definition fetch_document_store_status ::
    "config \<Rightarrow> env \<Rightarrow> string option \<Rightarrow> world \<Rightarrow> document_store option \<times> world" where
  "fetch_document_store_status cfg e store_id w =
     (let url = base_url cfg @ ''/api/v1/document-store/store/'' @ py_str store_id;
          reply = status_reply e (fetches w) url;
          w = w\<lparr>fetches := fetches w + 1\<rparr>
      in case reply of
           Status_json data \<Rightarrow> (Some data, w)
         | Status_failed err \<Rightarrow>
             (None, log_msg WARNING
                (''Failed to fetch status for store '' @ py_str store_id @ '': '' @ err) w))"

section \<open>trigger_refresh\<close>

text \<open>
  The value \<open>_try_refresh_request\<close> returns, (success, status, text, headers), for each
  thing the HTTP call can do: the \<open>return\<close> of the \<open>try\<close> block and of the two handlers.
\<close>

definition request_outcome :: "exchange \<Rightarrow> bool \<times> int \<times> string \<times> http_headers" where
  "request_outcome reply =
     (case reply of
        Ok_response status response_text response_headers \<Rightarrow>
          (True, status, response_text, response_headers)
      | Response_error status body \<Rightarrow>
          (case body of
             None \<Rightarrow> (False, status, [], [])
           | Some (response_text, response_headers) \<Rightarrow>
               (False, status, response_text, response_headers))
      | Other_error err \<Rightarrow> (False, 0, err, []))"

definition try_refresh_request ::
    "env \<Rightarrow> string \<Rightarrow> http_headers \<Rightarrow> json_body option \<Rightarrow> http_method \<Rightarrow> world
       \<Rightarrow> (bool \<times> int \<times> string \<times> http_headers) \<times> world" where
  "try_refresh_request e url headers payload method w =
     (let req = \<lparr>req_method = method, req_url = url, req_headers = headers, req_payload = payload\<rparr>;
          reply = refresh_reply e (requests w) req
      in (request_outcome reply, w\<lparr>requests := requests w @ [req]\<rparr>))"

definition attempts :: "(http_method \<times> json_body option \<times> string) list" where
  "attempts =
     [(POST, None, ''POST with no body''),
      (POST, Some Empty_object, ''POST with empty JSON object''),
      (POST, Some Empty_items, ''POST with empty items array''),
      (PUT, None, ''PUT with no body''),
      (PUT, Some Empty_object, ''PUT with empty JSON object'')]"

record trigger_vars =
  last_error_status :: int
  last_error_message :: string
  last_error_headers :: http_headers

text \<open>
  The \<open>for\<close> loop over the attempts. The boolean says whether the loop left through
  \<open>return True\<close>; falling off the end of the list leaves it false.
\<close>

fun trigger_loop ::
    "env \<Rightarrow> string \<Rightarrow> http_headers \<Rightarrow> (http_method \<times> json_body option \<times> string) list
       \<Rightarrow> trigger_vars \<Rightarrow> world \<Rightarrow> bool \<times> trigger_vars \<times> world" where
  "trigger_loop e url headers [] v w = (False, v, w)"
| "trigger_loop e url headers ((method, payload, description) # rest) v w =
     (case try_refresh_request e url headers payload method w of
        ((success, status, response_text, response_headers), w') \<Rightarrow>
          if success then (True, v, w')
          else trigger_loop e url headers rest
                 \<lparr>last_error_status = status, last_error_message = response_text,
                  last_error_headers = response_headers\<rparr> w')"

definition hint_lines :: "string list" where
  "hint_lines =
     [''Hint: HTTP 500 indicates an internal server error in Flowise.'',
      ''   Possible causes:'',
      ''   - The document store may not have any loaders configured'',
      ''   - The vector store configuration may be invalid'',
      ''   - Check the Flowise server logs for more details'']"

definition report_trigger_failure :: "string option \<Rightarrow> trigger_vars \<Rightarrow> world \<Rightarrow> world" where
  "report_trigger_failure store_id v w =
     (let error_detail =
            (if last_error_message v \<noteq> []
             then [CHR 0x0A] @ ''   API Response: '' @ last_error_message v else []);
          w = (if last_error_status v > 0
               then log_msg ERROR
                      (''Failed to trigger refresh for store '' @ py_str store_id @ '': HTTP ''
                         @ str_int (last_error_status v) @ error_detail) w
               else log_msg ERROR
                      (''Failed to trigger refresh for store '' @ py_str store_id @ '': ''
                         @ last_error_message v) w)
      in if last_error_status v = 500
         then foldl (\<lambda>w l. log_msg INFO l w) w hint_lines
         else w)"

definition trigger_refresh :: "config \<Rightarrow> env \<Rightarrow> string option \<Rightarrow> world \<Rightarrow> bool \<times> world" where
  "trigger_refresh cfg e store_id w =
     (let url = base_url cfg @ ''/api/v1/document-store/refresh/'' @ py_str store_id;
          headers = get_headers (api_key cfg)
      in case trigger_loop e url headers attempts
                \<lparr>last_error_status = 0, last_error_message = [], last_error_headers = []\<rparr> w of
           (returned, v, w') \<Rightarrow>
             if returned then (True, w') else (False, report_trigger_failure store_id v w'))"

section \<open>RefreshMonitor and the monitor loop\<close>

record refresh_monitor =
  store :: document_store
  store_id :: "string option"
  store_name :: string
  start_time :: real
  status :: string
  completed :: bool
  error :: "string option"
  final_status :: "string option"
  iteration_count :: int
  last_chunks :: int
  initial_chunks :: int

text \<open>\<open>RefreshMonitor.__init__\<close>: reads the clock once for \<open>start_time\<close>.\<close>

definition RefreshMonitor :: "env \<Rightarrow> document_store \<Rightarrow> world \<Rightarrow> refresh_monitor \<times> world" where
  "RefreshMonitor e st w =
     (case time_time e w of
        (t, w') \<Rightarrow>
          (\<lparr>store = st, store_id = ds_id st, store_name = get_or (ds_name st) ''Unnamed Store'',
            start_time = t, status = ''STARTING'', completed = False, error = None,
            final_status = None, iteration_count = 0, last_chunks = 0,
            initial_chunks = get_or (ds_totalChunks st) 0\<rparr>, w'))"

text \<open>How one pass through the body of \<open>while True\<close> ends: \<open>break\<close>, or on to the next pass.\<close>

datatype 'a loop_step = Break 'a | Continue 'a

text \<open>The text of the chunk line in the busy branch.\<close>

definition chunk_info_text :: "int \<Rightarrow> int \<Rightarrow> string" where
  "chunk_info_text current_chunks chunks_delta =
     (let chunk_info = ''Chunks: '' @ fmt_commas current_chunks in
      if chunks_delta > 0 then chunk_info @ '' (+'' @ fmt_commas chunks_delta @ '' since last check)''
      else if chunks_delta < 0 then chunk_info @ '' ('' @ fmt_commas chunks_delta @ '' since last check)''
      else chunk_info)"

text \<open>
  The part of the loop body after a successful fetch: from \<open>monitor.iteration_count += 1\<close>
  to the end of the \<open>if/elif\<close> chain.
\<close>

definition handle_store_data ::
    "config \<Rightarrow> real \<Rightarrow> document_store \<Rightarrow> refresh_monitor \<Rightarrow> world
       \<Rightarrow> (refresh_monitor \<times> world) loop_step" where
  "handle_store_data cfg elapsed store_data monitor0 w =
     (let monitor = monitor0\<lparr>iteration_count := iteration_count monitor0 + 1\<rparr>;
          current_status = upper (get_or (ds_status store_data) ''UNKNOWN'');
          monitor = monitor\<lparr>status := current_status\<rparr>;
          current_chunks = get_or (ds_totalChunks store_data) 0;
          chunks_delta =
            (if iteration_count monitor > 1 then current_chunks - last_chunks monitor else 0);
          monitor = monitor\<lparr>last_chunks := current_chunks\<rparr>;
          elapsed_str = format_elapsed_time elapsed
      in
        if current_status \<in> REFRESHABLE_STATUSES then
          Break (monitor\<lparr>completed := True, final_status := Some current_status\<rparr>,
                 print_msg (Completed (store_name monitor) elapsed_str (iteration_count monitor)
                              current_status current_chunks (initial_chunks monitor)) w)
        else if current_status \<in> BUSY_STATUSES then
          Continue (monitor,
                    asyncio_sleep (STATUS_CHECK_INTERVAL cfg)
                      (print_msg (Busy_report (store_name monitor) current_status
                                    (iteration_count monitor)
                                    (chunk_info_text current_chunks chunks_delta)
                                    elapsed_str (STATUS_CHECK_INTERVAL cfg)) w))
        else if current_status \<in> WAITING_STATUSES then
          Continue (monitor,
                    asyncio_sleep (STATUS_CHECK_INTERVAL cfg)
                      (print_msg (Waiting_report (store_name monitor) current_status
                                    (iteration_count monitor) current_chunks elapsed_str) w))
        else
          Continue (monitor,
                    asyncio_sleep (STATUS_CHECK_INTERVAL cfg)
                      (print_msg (Other_report (store_name monitor) current_status
                                    (iteration_count monitor) current_chunks elapsed_str) w)))"

text \<open>One pass through the body of \<open>while True\<close> in \<open>monitor_refresh_progress\<close>.\<close>

definition monitor_cycle ::
    "config \<Rightarrow> env \<Rightarrow> refresh_monitor \<times> world \<Rightarrow> (refresh_monitor \<times> world) loop_step" where
  "monitor_cycle cfg e mw =
     (case mw of (monitor, w0) \<Rightarrow>
       (case time_time e w0 of (t, w1) \<Rightarrow>
         (let elapsed = t - start_time monitor in
          if elapsed > real_of_int (MAX_REFRESH_TIMEOUT cfg) then
            Break (monitor\<lparr>error := Some (''Timeout after '' @ format_elapsed_time elapsed),
                           completed := True\<rparr>,
                   print_msg (Timed_out (store_name monitor) (format_elapsed_time elapsed)
                                (iteration_count monitor)) w1)
          else
            (case fetch_document_store_status cfg e (store_id monitor) w1 of
               (None, w2) \<Rightarrow>
                 Continue (monitor,
                           asyncio_sleep (STATUS_CHECK_INTERVAL cfg)
                             (print_msg (Fetch_failed (store_name monitor)) w2))
             | (Some store_data, w2) \<Rightarrow>
                 handle_store_data cfg elapsed store_data monitor w2))))"

text \<open>
  The \<open>while True\<close> loop. It may run forever; then the value is \<open>None\<close>.
\<close>

partial_function (option) monitor_loop ::
    "config \<Rightarrow> env \<Rightarrow> refresh_monitor \<times> world \<Rightarrow> (refresh_monitor \<times> world) option" where
  "monitor_loop cfg e mw =
     (case monitor_cycle cfg e mw of
        Break r \<Rightarrow> Some r
      | Continue mw' \<Rightarrow> monitor_loop cfg e mw')"

definition monitor_refresh_progress ::
    "config \<Rightarrow> env \<Rightarrow> refresh_monitor \<Rightarrow> world \<Rightarrow> (refresh_monitor \<times> world) option" where
  "monitor_refresh_progress cfg e monitor w =
     monitor_loop cfg e
       (monitor, print_msg (Started (store_name monitor) (initial_chunks monitor)) w)"

text \<open>
  The first \<open>n\<close> passes of the loop, for looking at a run that has not ended: the state
  after them, and whether the loop has left through \<open>break\<close>.
\<close>

fun monitor_passes ::
    "nat \<Rightarrow> config \<Rightarrow> env \<Rightarrow> refresh_monitor \<times> world \<Rightarrow> (refresh_monitor \<times> world) loop_step" where
  "monitor_passes 0 cfg e mw = Continue mw"
| "monitor_passes (Suc n) cfg e mw =
     (case monitor_cycle cfg e mw of
        Break r \<Rightarrow> Break r
      | Continue mw' \<Rightarrow> monitor_passes n cfg e mw')"

section \<open>refresh_and_monitor and display_summary\<close>

definition refresh_and_monitor ::
    "config \<Rightarrow> env \<Rightarrow> document_store \<Rightarrow> world \<Rightarrow> (refresh_monitor \<times> world) option" where
  "refresh_and_monitor cfg e st w0 =
     (case RefreshMonitor e st w0 of (monitor, w1) \<Rightarrow>
       (case trigger_refresh cfg e (store_id monitor) w1 of (success, w2) \<Rightarrow>
          if \<not> success then
            Some (monitor\<lparr>error := Some ''Failed to trigger refresh'', completed := True\<rparr>, w2)
          else monitor_refresh_progress cfg e monitor w2))"

text \<open>Python's truth value of an \<open>Optional[str]\<close>: \<open>None\<close> and the empty string are false.\<close>

definition truthy :: "string option \<Rightarrow> bool" where
  "truthy v = (case v of None \<Rightarrow> False | Some s \<Rightarrow> s \<noteq> [])"

text \<open>
  The counting loop of \<open>display_summary\<close>: the pair (successful, failed) and the result
  line of each monitor. The duration and chunk lines it also prints do not enter the counts.
\<close>

fun display_summary_loop ::
    "refresh_monitor list \<Rightarrow> int \<times> int \<times> string list \<Rightarrow> int \<times> int \<times> string list" where
  "display_summary_loop [] acc = acc"
| "display_summary_loop (monitor # monitors) (successful, failed, results) =
     (if truthy (error monitor) then
        display_summary_loop monitors
          (successful, failed + 1, results @ [''FAILED - '' @ py_str (error monitor)])
      else
        display_summary_loop monitors
          (successful + 1, failed,
           results @ [''SUCCESS - Final Status: '' @ py_str (final_status monitor)]))"

definition display_summary :: "refresh_monitor list \<Rightarrow> int \<times> int \<times> string list" where
  "display_summary monitors = display_summary_loop monitors (0, 0, [])"

section \<open>Vocabulary for the properties of the trigger\<close>

text \<open>
  The request an attempt sends, the remote's reply to the k-th attempt once the attempts
  before it have been sent, and the loop variables a failed attempt leaves behind.
\<close>

definition attempt_request ::
    "string \<Rightarrow> http_headers \<Rightarrow> http_method \<times> json_body option \<times> string \<Rightarrow> request" where
  "attempt_request url headers a =
     (case a of (method, payload, description) \<Rightarrow>
        \<lparr>req_method = method, req_url = url, req_headers = headers, req_payload = payload\<rparr>)"

definition attempt_reply ::
    "env \<Rightarrow> string \<Rightarrow> http_headers \<Rightarrow> world \<Rightarrow> (http_method \<times> json_body option \<times> string) list
       \<Rightarrow> nat \<Rightarrow> exchange" where
  "attempt_reply e url headers w as k =
     refresh_reply e (requests w @ map (attempt_request url headers) (take k as))
       (attempt_request url headers (as ! k))"

definition recorded_error :: "bool \<times> int \<times> string \<times> http_headers \<Rightarrow> trigger_vars" where
  "recorded_error r =
     (case r of (success, code, response_text, response_headers) \<Rightarrow>
        \<lparr>last_error_status = code, last_error_message = response_text,
         last_error_headers = response_headers\<rparr>)"

definition refresh_url :: "config \<Rightarrow> string option \<Rightarrow> string" where
  "refresh_url cfg sid = base_url cfg @ ''/api/v1/document-store/refresh/'' @ py_str sid"

definition variant_request :: "config \<Rightarrow> string option \<Rightarrow> nat \<Rightarrow> request" where
  "variant_request cfg sid k =
     attempt_request (refresh_url cfg sid) (get_headers (api_key cfg)) (attempts ! k)"

definition variant_reply :: "config \<Rightarrow> env \<Rightarrow> string option \<Rightarrow> world \<Rightarrow> nat \<Rightarrow> exchange" where
  "variant_reply cfg e sid w k =
     attempt_reply e (refresh_url cfg sid) (get_headers (api_key cfg)) w attempts k"

definition variant_fails :: "config \<Rightarrow> env \<Rightarrow> string option \<Rightarrow> world \<Rightarrow> nat \<Rightarrow> bool" where
  "variant_fails cfg e sid w k = (\<not> fst (request_outcome (variant_reply cfg e sid w k)))"

text \<open>
  A configuration, an empty trace, and a remote that answers its first \<open>n\<close> refresh
  requests with an error status and accepts every later one; its status fetches all fail.
\<close>

definition example_config :: config where
  "example_config =
     \<lparr>base_url = ''http://flowise.local'', api_key = ''secret'',
      STATUS_CHECK_INTERVAL = 15, MAX_REFRESH_TIMEOUT = 600\<rparr>"

definition world0 :: world where
  "world0 = \<lparr>clock_reads = 0, requests = [], fetches = 0, slept = [], printed = [], logged = []\<rparr>"

definition remote_failing_first :: "nat \<Rightarrow> int \<Rightarrow> string \<Rightarrow> env" where
  "remote_failing_first n code body =
     \<lparr>now = (\<lambda>k. 0),
      refresh_reply = (\<lambda>sent req. if length sent < n then Response_error code (Some (body, []))
                                 else Ok_response 200 ''{}'' []),
      status_reply = (\<lambda>k url. Status_failed ''unreachable'')\<rparr>"

text \<open>A remote that rejects every refresh request, the n-th with status 400 + n.\<close>

definition remote_numbered_errors :: env where
  "remote_numbered_errors =
     \<lparr>now = (\<lambda>k. 0),
      refresh_reply = (\<lambda>sent req. Response_error (400 + int (length sent)) (Some (''refused'', []))),
      status_reply = (\<lambda>k url. Status_failed ''unreachable'')\<rparr>"

section \<open>Vocabulary for the properties of the monitor\<close>

text \<open>
  The URL the monitor fetches, the elapsed time at the k-th clock reading, whether that is
  past the timeout, the remote's answer to the k-th status fetch and its bucket, the monitor
  after a successful poll, the chunk delta of that poll, and the two ways a pass can end.
\<close>

definition status_url :: "config \<Rightarrow> refresh_monitor \<Rightarrow> string" where
  "status_url cfg m = base_url cfg @ ''/api/v1/document-store/store/'' @ py_str (store_id m)"

definition elapsed_at :: "env \<Rightarrow> refresh_monitor \<Rightarrow> nat \<Rightarrow> real" where
  "elapsed_at e m k = now e k - start_time m"

definition polled :: "refresh_monitor \<Rightarrow> document_store \<Rightarrow> refresh_monitor" where
  "polled m d =
     m\<lparr>iteration_count := iteration_count m + 1,
       status := upper (get_or (ds_status d) ''UNKNOWN''),
       last_chunks := get_or (ds_totalChunks d) 0\<rparr>"

definition poll_delta :: "refresh_monitor \<Rightarrow> document_store \<Rightarrow> int" where
  "poll_delta m d =
     (if iteration_count m \<ge> 1 then get_or (ds_totalChunks d) 0 - last_chunks m else 0)"

definition timed_out :: "config \<Rightarrow> env \<Rightarrow> refresh_monitor \<Rightarrow> nat \<Rightarrow> bool" where
  "timed_out cfg e m k = (elapsed_at e m k > real_of_int (MAX_REFRESH_TIMEOUT cfg))"

primrec step_state :: "'a loop_step \<Rightarrow> 'a" where
  "step_state (Break x) = x"
| "step_state (Continue x) = x"

primrec is_break :: "'a loop_step \<Rightarrow> bool" where
  "is_break (Break x) = True"
| "is_break (Continue x) = False"

definition fetch_at :: "config \<Rightarrow> env \<Rightarrow> refresh_monitor \<Rightarrow> nat \<Rightarrow> status_exchange" where
  "fetch_at cfg e m k = status_reply e k (status_url cfg m)"

definition fetch_fails :: "status_exchange \<Rightarrow> bool" where
  "fetch_fails x = (case x of Status_failed err \<Rightarrow> True | Status_json d \<Rightarrow> False)"

definition fetch_bucket :: "status_exchange \<Rightarrow> status_bucket option" where
  "fetch_bucket x =
     (case x of
        Status_failed err \<Rightarrow> None
      | Status_json d \<Rightarrow> Some (classify (get_or (ds_status d) ''UNKNOWN'')))"

text \<open>
  Sample runs: a store record, a remote whose status fetches follow a script and then repeat
  one answer, a clock that advances 15 seconds per reading and one that stands still, and a
  remote that always reports a store in status \<open>syncing\<close>.
\<close>

definition sample_store :: "string \<Rightarrow> int \<Rightarrow> document_store" where
  "sample_store st n =
     \<lparr>ds_id = Some ''s1'', ds_name = Some ''Docs'', ds_status = Some st, ds_totalChunks = Some n\<rparr>"

definition scripted_remote :: "(nat \<Rightarrow> real) \<Rightarrow> status_exchange list \<Rightarrow> status_exchange \<Rightarrow> env" where
  "scripted_remote clock script dflt =
     \<lparr>now = clock,
      refresh_reply = (\<lambda>sent req. Ok_response 200 ''{}'' []),
      status_reply = (\<lambda>k url. if k < length script then script ! k else dflt)\<rparr>"

definition ticking_clock :: "nat \<Rightarrow> real" where
  "ticking_clock k = 15 * real k"

definition frozen_clock :: "nat \<Rightarrow> real" where
  "frozen_clock k = 0"

definition busy_remote :: "(nat \<Rightarrow> real) \<Rightarrow> env" where
  "busy_remote clock = scripted_remote clock [] (Status_json (sample_store ''syncing'' 100))"

text \<open>A remote whose status fetch fails once and then reports a busy store.\<close>

definition recovering_remote :: "(nat \<Rightarrow> real) \<Rightarrow> env" where
  "recovering_remote clock =
     scripted_remote clock [Status_failed ''connection reset'']
       (Status_json (sample_store ''syncing'' 100))"

text \<open>A remote whose status fetches all fail.\<close>

definition unreachable_remote :: "(nat \<Rightarrow> real) \<Rightarrow> env" where
  "unreachable_remote clock = scripted_remote clock [] (Status_failed ''connection refused'')"

text \<open>The chunk lines of the busy reports among the printed messages, in order.\<close>

fun busy_chunk_infos :: "message list \<Rightarrow> string list" where
  "busy_chunk_infos [] = []"
| "busy_chunk_infos (Busy_report name st n info el i # ms) = info # busy_chunk_infos ms"
| "busy_chunk_infos (other # ms) = busy_chunk_infos ms"

text \<open>
  A remote reporting a busy store with chunk counts 100, 140, 140 and 200, with failed
  fetches before, between and after them.
\<close>

definition chunk_script :: "status_exchange list" where
  "chunk_script =
     [Status_failed ''timeout'',
      Status_json (sample_store ''syncing'' 100),
      Status_failed ''timeout'',
      Status_json (sample_store ''syncing'' 140),
      Status_json (sample_store ''syncing'' 140),
      Status_failed ''timeout'',
      Status_failed ''timeout'',
      Status_json (sample_store ''syncing'' 200)]"

definition chunk_remote :: env where
  "chunk_remote = scripted_remote frozen_clock chunk_script (Status_failed ''end of script'')"

text \<open>A remote that accepts the first refresh request and reports the store busy once, then upserted.\<close>

definition completing_remote :: env where
  "completing_remote =
     scripted_remote frozen_clock [Status_json (sample_store ''syncing'' 100)]
       (Status_json (sample_store ''Upserted'' 140))"

section \<open>Properties of the status classification\<close>

lemma status_sets_disjoint:
  "u \<in> WAITING_STATUSES \<Longrightarrow> u \<notin> REFRESHABLE_STATUSES"
  "u \<in> BUSY_STATUSES \<Longrightarrow> u \<notin> REFRESHABLE_STATUSES"
  "u \<in> WAITING_STATUSES \<Longrightarrow> u \<notin> BUSY_STATUSES"
  by (auto simp: REFRESHABLE_STATUSES_def BUSY_STATUSES_def WAITING_STATUSES_def)

lemma classify_Refreshable_iff:
  "(classify s = Refreshable) = (upper s \<in> REFRESHABLE_STATUSES)"
  by (simp add: classify_def Let_def)

lemma classify_Busy_iff:
  "(classify s = Busy) = (upper s \<in> BUSY_STATUSES)"
  by (simp add: classify_def Let_def status_sets_disjoint)




section \<open>Properties of filter_refreshable_stores\<close>

lemma filter_refreshable_loop_acc:
  "filter_refreshable_loop stores acc =
     acc @ filter (\<lambda>st. classify (get_or (ds_status st) ''UNKNOWN'') = Refreshable) stores"
proof (induction stores arbitrary: acc)
  case Nil
  show ?case by simp
next
  case (Cons st stores)
  show ?case
    by (simp add: Cons.IH classify_Refreshable_iff Let_def status_sets_disjoint)
qed

text \<open>
  Claim C9. \<open>filter_refreshable_stores\<close> returns, in input order, exactly the stores whose
  status (\<open>UNKNOWN\<close> when the key is absent) classifies as Refreshable; stores in any
  other bucket are left out, whatever their status string looks like.
\<close>

theorem filter_refreshable_stores_exact:
  "filter_refreshable_stores stores =
     filter (\<lambda>st. classify (get_or (ds_status st) ''UNKNOWN'') = Refreshable) stores"
  by (simp add: filter_refreshable_stores_def filter_refreshable_loop_acc)

section \<open>Properties of trigger_refresh\<close>

lemma attempt_reply_0:
  "attempt_reply e url headers w (a # as) 0 = refresh_reply e (requests w) (attempt_request url headers a)"
  by (simp add: attempt_reply_def)

lemma attempt_reply_Suc:
  "attempt_reply e url headers w (a # as) (Suc j) =
     attempt_reply e url headers (w\<lparr>requests := requests w @ [attempt_request url headers a]\<rparr>) as j"
  by (simp add: attempt_reply_def)

lemma trigger_loop_step:
  "trigger_loop e url headers (a # as) v w =
     (let r = request_outcome (attempt_reply e url headers w (a # as) 0);
          w' = w\<lparr>requests := requests w @ [attempt_request url headers a]\<rparr>
      in if fst r then (True, v, w') else trigger_loop e url headers as (recorded_error r) w')"
  by (cases a; cases "request_outcome (attempt_reply e url headers w (a # as) 0)")
     (simp add: try_refresh_request_def attempt_reply_def attempt_request_def recorded_error_def Let_def)

lemma trigger_loop_all_fail:
  "(\<forall>j<length as. \<not> fst (request_outcome (attempt_reply e url headers w as j))) \<Longrightarrow>
   trigger_loop e url headers as v w =
     (False,
      (if as = [] then v
       else recorded_error (request_outcome (attempt_reply e url headers w as (length as - 1)))),
      w\<lparr>requests := requests w @ map (attempt_request url headers) as\<rparr>)"
proof (induction as arbitrary: v w)
  case Nil
  show ?case by simp
next
  case (Cons a as)
  let ?w' = "w\<lparr>requests := requests w @ [attempt_request url headers a]\<rparr>"
  let ?r0 = "request_outcome (attempt_reply e url headers w (a # as) 0)"
  from Cons.prems have first: "\<not> fst ?r0"
    by auto
  from Cons.prems have rest: "\<forall>j<length as. \<not> fst (request_outcome (attempt_reply e url headers ?w' as j))"
    by (auto simp: attempt_reply_Suc [symmetric])
  have step: "trigger_loop e url headers (a # as) v w =
      trigger_loop e url headers as (recorded_error ?r0) ?w'"
    using first by (simp add: trigger_loop_step Let_def del: trigger_loop.simps)
  have idx: "attempt_reply e url headers w (a # as) (length as) =
      attempt_reply e url headers ?w' as (length as - 1)" if "as \<noteq> []"
    using that attempt_reply_Suc [of e url headers w a as "length as - 1"] by (cases as) simp_all
  show ?case
    unfolding step Cons.IH [OF rest]
    by (simp add: idx)
qed

lemma trigger_loop_first_success:
  "k < length as \<Longrightarrow>
   (\<forall>j<k. \<not> fst (request_outcome (attempt_reply e url headers w as j))) \<Longrightarrow>
   fst (request_outcome (attempt_reply e url headers w as k)) \<Longrightarrow>
   \<exists>v'. trigger_loop e url headers as v w =
     (True, v', w\<lparr>requests := requests w @ map (attempt_request url headers) (take (Suc k) as)\<rparr>)"
proof (induction as arbitrary: k v w)
  case Nil
  then show ?case by simp
next
  case (Cons a as)
  let ?w' = "w\<lparr>requests := requests w @ [attempt_request url headers a]\<rparr>"
  show ?case
  proof (cases k)
    case 0
    with Cons.prems show ?thesis by (simp add: trigger_loop_step Let_def del: trigger_loop.simps)
  next
    case (Suc k')
    with Cons.prems have first: "\<not> fst (request_outcome (attempt_reply e url headers w (a # as) 0))"
      by auto
    from Suc Cons.prems have len: "k' < length as" by simp
    from Suc Cons.prems have rest: "\<forall>j<k'. \<not> fst (request_outcome (attempt_reply e url headers ?w' as j))"
      by (auto simp: attempt_reply_Suc [symmetric])
    from Suc Cons.prems have ok: "fst (request_outcome (attempt_reply e url headers ?w' as k'))"
      by (simp add: attempt_reply_Suc)
    from Cons.IH [OF len rest ok] first Suc show ?thesis
      by (simp add: trigger_loop_step [of e url headers a as] Let_def del: trigger_loop.simps)
  qed
qed


lemma length_attempts: "length attempts = 5"
  by (simp add: attempts_def)

lemma take_map_upt: "n \<le> length xs \<Longrightarrow> map f (take n xs) = map (\<lambda>k. f (xs ! k)) [0..<n]"
  by (rule nth_equalityI) simp_all

lemma variant_requests_take:
  "n \<le> 5 \<Longrightarrow>
   map (attempt_request (refresh_url cfg sid) (get_headers (api_key cfg))) (take n attempts) =
     map (variant_request cfg sid) [0..<n]"
proof -
  have "variant_request cfg sid =
      (\<lambda>k. attempt_request (refresh_url cfg sid) (get_headers (api_key cfg)) (attempts ! k))"
    by (rule ext) (simp add: variant_request_def)
  moreover assume "n \<le> 5"
  ultimately show ?thesis
    using take_map_upt [of n attempts "attempt_request (refresh_url cfg sid) (get_headers (api_key cfg))"]
    by (simp add: length_attempts)
qed

lemma variant_requests_all:
  "map (attempt_request (refresh_url cfg sid) (get_headers (api_key cfg))) attempts =
     map (variant_request cfg sid) [0..<5]"
  using variant_requests_take [of 5 cfg sid] by (simp add: length_attempts)

lemma trigger_refresh_unfold:
  "trigger_refresh cfg e sid w =
     (case trigger_loop e (refresh_url cfg sid) (get_headers (api_key cfg)) attempts
             \<lparr>last_error_status = 0, last_error_message = [], last_error_headers = []\<rparr> w of
        (returned, v, w') \<Rightarrow>
          if returned then (True, w') else (False, report_trigger_failure sid v w'))"
  by (simp add: trigger_refresh_def refresh_url_def Let_def)

lemma trigger_refresh_success:
  assumes "k < 5" and "\<forall>j<k. variant_fails cfg e sid w j" and "\<not> variant_fails cfg e sid w k"
  shows "trigger_refresh cfg e sid w =
           (True, w\<lparr>requests := requests w @ map (variant_request cfg sid) [0..<Suc k]\<rparr>)"
proof -
  let ?url = "refresh_url cfg sid" and ?h = "get_headers (api_key cfg)"
  let ?v0 = "\<lparr>last_error_status = 0, last_error_message = [], last_error_headers = []\<rparr>"
  from assms have
    "\<exists>v'. trigger_loop e ?url ?h attempts ?v0 w =
       (True, v', w\<lparr>requests := requests w @ map (attempt_request ?url ?h) (take (Suc k) attempts)\<rparr>)"
    by (intro trigger_loop_first_success) (simp_all add: length_attempts variant_fails_def variant_reply_def)
  then obtain v' where
    "trigger_loop e ?url ?h attempts ?v0 w =
       (True, v', w\<lparr>requests := requests w @ map (attempt_request ?url ?h) (take (Suc k) attempts)\<rparr>)"
    by blast
  moreover from assms(1) have "Suc k \<le> 5" by simp
  ultimately show ?thesis
    by (simp add: trigger_refresh_unfold variant_requests_take)
qed

lemma trigger_loop_exhausted:
  assumes "\<forall>k<5. variant_fails cfg e sid w k"
  shows "trigger_loop e (refresh_url cfg sid) (get_headers (api_key cfg)) attempts v w =
           (False, recorded_error (request_outcome (variant_reply cfg e sid w 4)),
            w\<lparr>requests := requests w @ map (variant_request cfg sid) [0..<5]\<rparr>)"
proof -
  let ?url = "refresh_url cfg sid" and ?h = "get_headers (api_key cfg)"
  from assms have "\<forall>j<length attempts. \<not> fst (request_outcome (attempt_reply e ?url ?h w attempts j))"
    by (simp add: length_attempts variant_fails_def variant_reply_def)
  from trigger_loop_all_fail [OF this, of v] show ?thesis
    by (simp add: length_attempts variant_requests_all variant_reply_def)
       (simp add: attempts_def)
qed

lemma trigger_refresh_exhausted:
  assumes "\<forall>k<5. variant_fails cfg e sid w k"
  shows "trigger_refresh cfg e sid w =
           (False, report_trigger_failure sid
                     (recorded_error (request_outcome (variant_reply cfg e sid w 4)))
                     (w\<lparr>requests := requests w @ map (variant_request cfg sid) [0..<5]\<rparr>))"
  by (simp add: trigger_refresh_unfold trigger_loop_exhausted [OF assms])

lemma first_success_exists:
  assumes "\<not> (\<forall>k<5. variant_fails cfg e sid w k)"
  shows "\<exists>k<5. (\<forall>j<k. variant_fails cfg e sid w j) \<and> \<not> variant_fails cfg e sid w k"
proof -
  from assms obtain k0 where k0: "k0 < 5" "\<not> variant_fails cfg e sid w k0" by blast
  define k where "k = (LEAST k. \<not> variant_fails cfg e sid w k)"
  have ok: "\<not> variant_fails cfg e sid w k" unfolding k_def using k0(2) by (rule LeastI)
  have "k \<le> k0" unfolding k_def using k0(2) by (rule Least_le)
  with k0(1) have small: "k < 5" by simp
  have before: "\<forall>j<k. variant_fails cfg e sid w j"
    unfolding k_def using not_less_Least by blast
  from small before ok show ?thesis by blast
qed

lemma trigger_refresh_fails_iff:
  "(fst (trigger_refresh cfg e sid w) = False) = (\<forall>k<5. variant_fails cfg e sid w k)"
proof
  assume f: "fst (trigger_refresh cfg e sid w) = False"
  show "\<forall>k<5. variant_fails cfg e sid w k"
  proof (rule ccontr)
    assume "\<not> (\<forall>k<5. variant_fails cfg e sid w k)"
    from first_success_exists [OF this] obtain k where
      "k < 5" "\<forall>j<k. variant_fails cfg e sid w j" "\<not> variant_fails cfg e sid w k" by blast
    from trigger_refresh_success [OF this] f show False by simp
  qed
next
  assume "\<forall>k<5. variant_fails cfg e sid w k"
  from trigger_refresh_exhausted [OF this] show "fst (trigger_refresh cfg e sid w) = False" by simp
qed

lemma log_msg_fields:
  "requests (log_msg l s w) = requests w"
  "fetches (log_msg l s w) = fetches w"
  "clock_reads (log_msg l s w) = clock_reads w"
  "printed (log_msg l s w) = printed w"
  "slept (log_msg l s w) = slept w"
  "logged (log_msg l s w) = logged w @ [(l, s)]"
  by (simp_all add: log_msg_def)

lemma foldl_info_fields:
  "requests (foldl (\<lambda>w l. log_msg INFO l w) w ls) = requests w"
  "fetches (foldl (\<lambda>w l. log_msg INFO l w) w ls) = fetches w"
  "clock_reads (foldl (\<lambda>w l. log_msg INFO l w) w ls) = clock_reads w"
  "printed (foldl (\<lambda>w l. log_msg INFO l w) w ls) = printed w"
  "slept (foldl (\<lambda>w l. log_msg INFO l w) w ls) = slept w"
  "logged (foldl (\<lambda>w l. log_msg INFO l w) w ls) = logged w @ map (Pair INFO) ls"
  by (induction ls arbitrary: w) (simp_all add: log_msg_fields)

lemma report_trigger_failure_fields:
  "requests (report_trigger_failure sid v w) = requests w"
  "fetches (report_trigger_failure sid v w) = fetches w"
  "clock_reads (report_trigger_failure sid v w) = clock_reads w"
  "printed (report_trigger_failure sid v w) = printed w"
  "slept (report_trigger_failure sid v w) = slept w"
  by (simp_all add: report_trigger_failure_def Let_def foldl_info_fields log_msg_fields)

lemma logged_report_trigger_failure:
  "logged (report_trigger_failure sid v w) =
     logged w @
     [(ERROR,
       if last_error_status v > 0
       then ''Failed to trigger refresh for store '' @ py_str sid @ '': HTTP ''
              @ str_int (last_error_status v)
              @ (if last_error_message v \<noteq> []
                 then [CHR 0x0A] @ ''   API Response: '' @ last_error_message v else [])
       else ''Failed to trigger refresh for store '' @ py_str sid @ '': '' @ last_error_message v)]
     @ (if last_error_status v = 500 then map (Pair INFO) hint_lines else [])"
  by (simp add: report_trigger_failure_def Let_def foldl_info_fields log_msg_fields)

lemma variant_order:
  "map (\<lambda>r. (req_method r, req_payload r)) (map (variant_request cfg sid) [0..<5]) =
     [(POST, None), (POST, Some Empty_object), (POST, Some Empty_items),
      (PUT, None), (PUT, Some Empty_object)]"
  by (simp add: variant_requests_all [symmetric] attempts_def attempt_request_def)

lemma variant_requests_distinct: "distinct (map (variant_request cfg sid) [0..<5])"
proof -
  have "distinct (map (\<lambda>r. (req_method r, req_payload r)) (map (variant_request cfg sid) [0..<5]))"
    unfolding variant_order by simp
  then show ?thesis by (metis distinct_map)
qed

text \<open>
  Claim C3. The variants go out in the fixed order POST without body, POST with \<open>{}\<close>,
  POST with \<open>{"items": []}\<close>, PUT without body, PUT with \<open>{}\<close>. When variant
  \<open>k\<close> is the first the remote accepts, \<open>trigger_refresh\<close> returns success having sent
  exactly the variants up to and including \<open>k\<close>, and nothing else changes in the trace;
  with \<open>k = 3\<close>, the fifth variant is never sent.
\<close>

theorem trigger_refresh_stops_at_first_success:
  assumes "k < 5" and "\<forall>j<k. variant_fails cfg e sid w j" and "\<not> variant_fails cfg e sid w k"
  shows "trigger_refresh cfg e sid w =
           (True, w\<lparr>requests := requests w @ map (variant_request cfg sid) [0..<Suc k]\<rparr>)
         \<and> map (\<lambda>r. (req_method r, req_payload r)) (map (variant_request cfg sid) [0..<5]) =
             [(POST, None), (POST, Some Empty_object), (POST, Some Empty_items),
              (PUT, None), (PUT, Some Empty_object)]"
  using trigger_refresh_success [OF assms] variant_order by simp

lemma variant_fails_remote:
  "variant_fails cfg (remote_failing_first n code body) sid world0 k = (k < n)" if "k < 5"
  using that
  by (simp add: variant_fails_def variant_reply_def attempt_reply_def remote_failing_first_def
        request_outcome_def world0_def length_attempts)

text \<open>
  A remote that rejects the first three requests and accepts the fourth: four requests go
  out, the last of them the PUT without body.
\<close>

theorem trigger_refresh_stops_at_first_success_witness:
  "trigger_refresh example_config (remote_failing_first 3 404 ''Not Found'') (Some ''s1'') world0 =
     (True, world0\<lparr>requests := map (variant_request example_config (Some ''s1'')) [0..<4]\<rparr>)
   \<and> map (\<lambda>r. (req_method r, req_payload r))
         (map (variant_request example_config (Some ''s1'')) [0..<4]) =
       [(POST, None), (POST, Some Empty_object), (POST, Some Empty_items), (PUT, None)]"
proof -
  have a: "(3::nat) < 5" by simp
  have b: "\<forall>j<3. variant_fails example_config (remote_failing_first 3 404 ''Not Found'')
      (Some ''s1'') world0 j"
    by (simp add: variant_fails_remote)
  have c: "\<not> variant_fails example_config (remote_failing_first 3 404 ''Not Found'')
      (Some ''s1'') world0 3"
    by (simp add: variant_fails_remote)
  have d: "requests world0 = []" by (simp add: world0_def)
  have e: "Suc 3 = 4" by simp
  have f: "map (\<lambda>r. (req_method r, req_payload r))
         (map (variant_request example_config (Some ''s1'')) [0..<4]) =
       [(POST, None), (POST, Some Empty_object), (POST, Some Empty_items), (PUT, None)]"
    by (simp add: variant_request_def attempt_request_def attempts_def upt_rec numeral_nat)
  from trigger_refresh_stops_at_first_success [OF a b c] show ?thesis
    by (simp only: d e f append_Nil simp_thms)
qed


lemma trigger_loop_prefix_fails:
  assumes "k < 5" and "\<forall>j\<le>k. variant_fails cfg e sid w j"
  shows "trigger_loop e (refresh_url cfg sid) (get_headers (api_key cfg)) (take (Suc k) attempts) v w =
           (False, recorded_error (request_outcome (variant_reply cfg e sid w k)),
            w\<lparr>requests := requests w @ map (variant_request cfg sid) [0..<Suc k]\<rparr>)"
proof -
  let ?url = "refresh_url cfg sid" and ?h = "get_headers (api_key cfg)"
  let ?as = "take (Suc k) attempts"
  from assms(1) have len: "length ?as = Suc k" by (simp add: length_attempts)
  have same: "attempt_reply e ?url ?h w ?as j = attempt_reply e ?url ?h w attempts j" if "j \<le> k" for j
    using that by (simp add: attempt_reply_def min_def)
  from assms(2) have "\<forall>j<length ?as. \<not> fst (request_outcome (attempt_reply e ?url ?h w ?as j))"
    unfolding len by (simp add: same variant_fails_def variant_reply_def)
  moreover have ne: "?as \<noteq> []" using len by auto
  moreover have "map (attempt_request ?url ?h) ?as = map (variant_request cfg sid) [0..<Suc k]"
    using assms(1) by (intro variant_requests_take) simp
  ultimately show ?thesis
    using trigger_loop_all_fail [of ?as e ?url ?h w v] same [of k]
    by (simp only: len ne if_False diff_Suc_1 variant_reply_def order_refl)
qed

text \<open>
  Claim C4. \<open>trigger_refresh\<close> returns failure exactly when all five variants fail. A
  failed attempt overwrites the recorded error and the loop goes on: after the variants up to
  \<open>k\<close> have failed the loop variables hold the outcome of variant \<open>k\<close>, so on exhaustion
  they hold the outcome of the fifth. The requests sent are always an initial segment of the
  five distinct variants, each sent at most once.
\<close>

theorem trigger_refresh_fails_iff_exhausted:
  "(fst (trigger_refresh cfg e sid w) = False) = (\<forall>k<5. variant_fails cfg e sid w k)
   \<and> ((\<forall>k<5. variant_fails cfg e sid w k) \<longrightarrow>
        trigger_loop e (refresh_url cfg sid) (get_headers (api_key cfg)) attempts v w =
          (False, recorded_error (request_outcome (variant_reply cfg e sid w 4)),
           w\<lparr>requests := requests w @ map (variant_request cfg sid) [0..<5]\<rparr>)
        \<and> trigger_refresh cfg e sid w =
            (False, report_trigger_failure sid
                      (recorded_error (request_outcome (variant_reply cfg e sid w 4)))
                      (w\<lparr>requests := requests w @ map (variant_request cfg sid) [0..<5]\<rparr>)))
   \<and> (\<forall>k<5. (\<forall>j\<le>k. variant_fails cfg e sid w j) \<longrightarrow>
        trigger_loop e (refresh_url cfg sid) (get_headers (api_key cfg)) (take (Suc k) attempts) v w =
          (False, recorded_error (request_outcome (variant_reply cfg e sid w k)),
           w\<lparr>requests := requests w @ map (variant_request cfg sid) [0..<Suc k]\<rparr>))
   \<and> (\<exists>n\<le>5. requests (snd (trigger_refresh cfg e sid w)) =
                 requests w @ map (variant_request cfg sid) [0..<n])
   \<and> distinct (map (variant_request cfg sid) [0..<5])"
proof (intro conjI)
  show "(fst (trigger_refresh cfg e sid w) = False) = (\<forall>k<5. variant_fails cfg e sid w k)"
    by (rule trigger_refresh_fails_iff)
next
  show "(\<forall>k<5. variant_fails cfg e sid w k) \<longrightarrow>
        trigger_loop e (refresh_url cfg sid) (get_headers (api_key cfg)) attempts v w =
          (False, recorded_error (request_outcome (variant_reply cfg e sid w 4)),
           w\<lparr>requests := requests w @ map (variant_request cfg sid) [0..<5]\<rparr>)
        \<and> trigger_refresh cfg e sid w =
            (False, report_trigger_failure sid
                      (recorded_error (request_outcome (variant_reply cfg e sid w 4)))
                      (w\<lparr>requests := requests w @ map (variant_request cfg sid) [0..<5]\<rparr>))"
    using trigger_loop_exhausted trigger_refresh_exhausted by blast
next
  show "\<forall>k<5. (\<forall>j\<le>k. variant_fails cfg e sid w j) \<longrightarrow>
        trigger_loop e (refresh_url cfg sid) (get_headers (api_key cfg)) (take (Suc k) attempts) v w =
          (False, recorded_error (request_outcome (variant_reply cfg e sid w k)),
           w\<lparr>requests := requests w @ map (variant_request cfg sid) [0..<Suc k]\<rparr>)"
    using trigger_loop_prefix_fails by blast
next
  show "\<exists>n\<le>5. requests (snd (trigger_refresh cfg e sid w)) =
                 requests w @ map (variant_request cfg sid) [0..<n]"
  proof (cases "\<forall>k<5. variant_fails cfg e sid w k")
    case True
    from trigger_refresh_exhausted [OF True] have
      "requests (snd (trigger_refresh cfg e sid w)) =
         requests w @ map (variant_request cfg sid) [0..<5]"
      by (simp add: report_trigger_failure_fields)
    then show ?thesis by blast
  next
    case False
    from first_success_exists [OF False] obtain k where
      k: "k < 5" "\<forall>j<k. variant_fails cfg e sid w j" "\<not> variant_fails cfg e sid w k" by blast
    from trigger_refresh_success [OF k] have
      "requests (snd (trigger_refresh cfg e sid w)) =
         requests w @ map (variant_request cfg sid) [0..<Suc k]"
      by simp
    moreover from k(1) have "Suc k \<le> 5" by simp
    ultimately show ?thesis by blast
  qed
next
  show "distinct (map (variant_request cfg sid) [0..<5])"
    by (rule variant_requests_distinct)
qed

lemma variant_fails_numbered:
  "variant_fails cfg remote_numbered_errors sid w k"
  by (simp add: variant_fails_def variant_reply_def attempt_reply_def remote_numbered_errors_def
        request_outcome_def)

lemma variant_reply_numbered_last:
  "request_outcome (variant_reply cfg remote_numbered_errors sid world0 4) =
     (False, 404, ''refused'', [])"
  by (simp add: variant_reply_def attempt_reply_def remote_numbered_errors_def
        request_outcome_def world0_def length_attempts)

text \<open>
  A remote that answers the n-th request with status 400 + n: the trigger fails and the
  recorded error is the 404 of the fifth variant.
\<close>

theorem trigger_refresh_fails_iff_exhausted_witness:
  "fst (trigger_refresh example_config remote_numbered_errors (Some ''s1'') world0) = False
   \<and> trigger_loop remote_numbered_errors (refresh_url example_config (Some ''s1''))
         (get_headers (api_key example_config)) attempts
         \<lparr>last_error_status = 0, last_error_message = [], last_error_headers = []\<rparr> world0 =
       (False,
        \<lparr>last_error_status = 404, last_error_message = ''refused'', last_error_headers = []\<rparr>,
        world0\<lparr>requests := map (variant_request example_config (Some ''s1'')) [0..<5]\<rparr>)"
proof -
  have all: "\<forall>k<5. variant_fails example_config remote_numbered_errors (Some ''s1'') world0 k"
    by (simp add: variant_fails_numbered)
  have d: "requests world0 = []" by (simp add: world0_def)
  from trigger_refresh_fails_iff_exhausted
         [of example_config remote_numbered_errors "Some ''s1''" world0
             "\<lparr>last_error_status = 0, last_error_message = [], last_error_headers = []\<rparr>"]
       all
  show ?thesis
    by (simp add: d variant_reply_numbered_last recorded_error_def)
qed

text \<open>
  Claim C5, as amended. On exhaustion \<open>trigger_refresh\<close> logs one error line with the last
  recorded status code (when positive) and body (when not empty), and appends the hint lines
  exactly when that status code is 500.
\<close>

theorem trigger_refresh_hints_only_for_500:
  assumes "\<forall>k<5. variant_fails cfg e sid w k"
  shows "let v = recorded_error (request_outcome (variant_reply cfg e sid w 4)) in
         logged (snd (trigger_refresh cfg e sid w)) =
           logged w @
           [(ERROR,
             if last_error_status v > 0
             then ''Failed to trigger refresh for store '' @ py_str sid @ '': HTTP ''
                    @ str_int (last_error_status v)
                    @ (if last_error_message v \<noteq> []
                       then [CHR 0x0A] @ ''   API Response: '' @ last_error_message v else [])
             else ''Failed to trigger refresh for store '' @ py_str sid @ '': ''
                    @ last_error_message v)]
           @ (if last_error_status v = 500 then map (Pair INFO) hint_lines else [])"
  unfolding Let_def trigger_refresh_exhausted [OF assms] snd_conv logged_report_trigger_failure
  by simp

lemma variant_reply_failing_last:
  "request_outcome (variant_reply cfg (remote_failing_first 5 code body) sid world0 4) =
     (False, code, body, [])"
  by (simp add: variant_reply_def attempt_reply_def remote_failing_first_def
        request_outcome_def world0_def length_attempts)

lemma world0_fields:
  "clock_reads world0 = 0" "requests world0 = []" "fetches world0 = 0"
  "slept world0 = []" "printed world0 = []" "logged world0 = []"
  by (simp_all add: world0_def)

lemma str_int_500: "str_int 500 = ''500''"
  by (simp add: str_int_def str_nat.simps digit_char_def)

lemma str_int_503: "str_int 503 = ''503''"
  by (simp add: str_int_def str_nat.simps digit_char_def)

text \<open>A remote that answers every variant with 500: the error line and the five hints.\<close>

theorem trigger_refresh_hints_only_for_500_witness:
  "logged (snd (trigger_refresh example_config
                  (remote_failing_first 5 500 ''Internal Server Error'') (Some ''s1'') world0)) =
     (ERROR, ''Failed to trigger refresh for store s1: HTTP 500'' @ [CHR 0x0A]
              @ ''   API Response: Internal Server Error'')
     # map (Pair INFO) hint_lines"
proof -
  have all: "\<forall>k<5. variant_fails example_config
      (remote_failing_first 5 500 ''Internal Server Error'') (Some ''s1'') world0 k"
    by (simp add: variant_fails_remote)
  from trigger_refresh_hints_only_for_500 [OF all] show ?thesis
    by (simp add: Let_def variant_reply_failing_last recorded_error_def str_int_500 py_str_def
          world0_fields)
qed

text \<open>
  Claim C5 as stated fails for a server-error status other than 500: when every variant is
  answered with 503, the error line is logged and no hint follows.
\<close>

theorem trigger_refresh_no_hints_for_503:
  "fst (trigger_refresh example_config
          (remote_failing_first 5 503 ''Service Unavailable'') (Some ''s1'') world0) = False
   \<and> logged (snd (trigger_refresh example_config
                  (remote_failing_first 5 503 ''Service Unavailable'') (Some ''s1'') world0)) =
     [(ERROR, ''Failed to trigger refresh for store s1: HTTP 503'' @ [CHR 0x0A]
               @ ''   API Response: Service Unavailable'')]"
proof -
  have all: "\<forall>k<5. variant_fails example_config
      (remote_failing_first 5 503 ''Service Unavailable'') (Some ''s1'') world0 k"
    by (simp add: variant_fails_remote)
  show ?thesis
    unfolding trigger_refresh_exhausted [OF all] snd_conv fst_conv logged_report_trigger_failure
    by (simp add: variant_reply_failing_last recorded_error_def str_int_503 py_str_def
          world0_fields)
qed

section \<open>Properties of the monitor loop\<close>

lemma world_effect_fields:
  "fetches (print_msg m w) = fetches w" "clock_reads (print_msg m w) = clock_reads w"
  "slept (print_msg m w) = slept w" "requests (print_msg m w) = requests w"
  "logged (print_msg m w) = logged w" "printed (print_msg m w) = printed w @ [m]"
  "fetches (asyncio_sleep d w) = fetches w" "clock_reads (asyncio_sleep d w) = clock_reads w"
  "slept (asyncio_sleep d w) = slept w @ [d]" "requests (asyncio_sleep d w) = requests w"
  "logged (asyncio_sleep d w) = logged w" "printed (asyncio_sleep d w) = printed w"
  by (simp_all add: print_msg_def asyncio_sleep_def)

lemma monitor_cycle_timeout:
  assumes "timed_out cfg e m (clock_reads w)"
  shows "monitor_cycle cfg e (m, w) =
     Break (m\<lparr>error := Some (''Timeout after '' @ format_elapsed_time (elapsed_at e m (clock_reads w))),
              completed := True\<rparr>,
            print_msg (Timed_out (store_name m) (format_elapsed_time (elapsed_at e m (clock_reads w)))
                         (iteration_count m))
              (w\<lparr>clock_reads := clock_reads w + 1\<rparr>))"
  using assms by (simp add: monitor_cycle_def time_time_def elapsed_at_def timed_out_def Let_def)

lemma monitor_cycle_fetch_failed:
  assumes "\<not> timed_out cfg e m (clock_reads w)"
    and "status_reply e (fetches w) (status_url cfg m) = Status_failed err"
  shows "monitor_cycle cfg e (m, w) =
     Continue (m,
       asyncio_sleep (STATUS_CHECK_INTERVAL cfg)
         (print_msg (Fetch_failed (store_name m))
            (log_msg WARNING
               (''Failed to fetch status for store '' @ py_str (store_id m) @ '': '' @ err)
               (w\<lparr>clock_reads := clock_reads w + 1, fetches := fetches w + 1\<rparr>))))"
  using assms
  by (simp add: monitor_cycle_def time_time_def elapsed_at_def timed_out_def Let_def
        fetch_document_store_status_def status_url_def)

lemma monitor_cycle_fetched:
  assumes "\<not> timed_out cfg e m (clock_reads w)"
    and "status_reply e (fetches w) (status_url cfg m) = Status_json d"
  shows "monitor_cycle cfg e (m, w) =
     handle_store_data cfg (elapsed_at e m (clock_reads w)) d m
       (w\<lparr>clock_reads := clock_reads w + 1, fetches := fetches w + 1\<rparr>)"
  using assms
  by (simp add: monitor_cycle_def time_time_def elapsed_at_def timed_out_def Let_def
        fetch_document_store_status_def status_url_def)

lemma handle_store_data_cases:
  "handle_store_data cfg el d m w =
     (let name = store_name m; st = upper (get_or (ds_status d) ''UNKNOWN'');
          chunks = get_or (ds_totalChunks d) 0; n = iteration_count m + 1;
          el_str = format_elapsed_time el; interval = STATUS_CHECK_INTERVAL cfg
      in case classify (get_or (ds_status d) ''UNKNOWN'') of
           Refreshable \<Rightarrow>
             Break ((polled m d)\<lparr>completed := True, final_status := Some st\<rparr>,
                    print_msg (Completed name el_str n st chunks (initial_chunks m)) w)
         | Busy \<Rightarrow>
             Continue (polled m d,
                       asyncio_sleep interval
                         (print_msg (Busy_report name st n
                                       (chunk_info_text chunks (poll_delta m d)) el_str interval) w))
         | Waiting \<Rightarrow>
             Continue (polled m d,
                       asyncio_sleep interval (print_msg (Waiting_report name st n chunks el_str) w))
         | Unknown \<Rightarrow>
             Continue (polled m d,
                       asyncio_sleep interval (print_msg (Other_report name st n chunks el_str) w)))"
  by (simp add: handle_store_data_def classify_def polled_def poll_delta_def Let_def)

lemma polled_fields:
  "store_id (polled m d) = store_id m" "start_time (polled m d) = start_time m"
  "store_name (polled m d) = store_name m" "error (polled m d) = error m"
  "final_status (polled m d) = final_status m" "completed (polled m d) = completed m"
  "initial_chunks (polled m d) = initial_chunks m"
  "iteration_count (polled m d) = iteration_count m + 1"
  "last_chunks (polled m d) = get_or (ds_totalChunks d) 0"
  "status (polled m d) = upper (get_or (ds_status d) ''UNKNOWN'')"
  by (simp_all add: polled_def)

lemma handle_store_data_Continue:
  assumes "handle_store_data cfg el d m w = Continue (m', w')"
  shows "m' = polled m d \<and> classify (get_or (ds_status d) ''UNKNOWN'') \<noteq> Refreshable
         \<and> clock_reads w' = clock_reads w \<and> fetches w' = fetches w
         \<and> requests w' = requests w
         \<and> slept w' = slept w @ [STATUS_CHECK_INTERVAL cfg]"
  using assms
  by (cases "classify (get_or (ds_status d) ''UNKNOWN'')")
     (auto simp: handle_store_data_cases Let_def world_effect_fields)

lemma handle_store_data_Break:
  assumes "handle_store_data cfg el d m w = Break (m', w')"
  shows "m' = (polled m d)\<lparr>completed := True, final_status := Some ''UPSERTED''\<rparr>
         \<and> classify (get_or (ds_status d) ''UNKNOWN'') = Refreshable
         \<and> clock_reads w' = clock_reads w \<and> fetches w' = fetches w
         \<and> requests w' = requests w \<and> slept w' = slept w"
proof (cases "classify (get_or (ds_status d) ''UNKNOWN'')")
  case Refreshable
  then have "upper (get_or (ds_status d) ''UNKNOWN'') = ''UPSERTED''"
    by (simp add: classify_Refreshable_iff REFRESHABLE_STATUSES_def)
  with Refreshable assms show ?thesis
    by (auto simp: handle_store_data_cases Let_def world_effect_fields)
qed (use assms in \<open>simp_all add: handle_store_data_cases Let_def\<close>)

lemma monitor_cycle_Continue:
  assumes "monitor_cycle cfg e (m, w) = Continue (m', w')"
  shows "\<not> timed_out cfg e m (clock_reads w)
         \<and> clock_reads w' = clock_reads w + 1 \<and> fetches w' = fetches w + 1
         \<and> requests w' = requests w
         \<and> slept w' = slept w @ [STATUS_CHECK_INTERVAL cfg]
         \<and> ((\<exists>err. status_reply e (fetches w) (status_url cfg m) = Status_failed err) \<and> m' = m
              \<or> (\<exists>d. status_reply e (fetches w) (status_url cfg m) = Status_json d
                     \<and> classify (get_or (ds_status d) ''UNKNOWN'') \<noteq> Refreshable
                     \<and> m' = polled m d))"
proof (cases "timed_out cfg e m (clock_reads w)")
  case True
  from monitor_cycle_timeout [OF True] assms show ?thesis by simp
next
  case False
  show ?thesis
  proof (cases "status_reply e (fetches w) (status_url cfg m)")
    case (Status_failed err)
    from monitor_cycle_fetch_failed [OF False Status_failed] assms False Status_failed
    show ?thesis by (auto simp: world_effect_fields log_msg_fields)
  next
    case (Status_json d)
    from monitor_cycle_fetched [OF False Status_json] assms
    have "handle_store_data cfg (elapsed_at e m (clock_reads w)) d m
            (w\<lparr>clock_reads := clock_reads w + 1, fetches := fetches w + 1\<rparr>) = Continue (m', w')"
      by simp
    from handle_store_data_Continue [OF this] False Status_json show ?thesis by simp
  qed
qed

lemma monitor_cycle_Break:
  assumes "monitor_cycle cfg e (m, w) = Break (m', w')"
  shows "(timed_out cfg e m (clock_reads w)
            \<and> m' = m\<lparr>error := Some (''Timeout after ''
                                       @ format_elapsed_time (elapsed_at e m (clock_reads w))),
                         completed := True\<rparr>
            \<and> fetches w' = fetches w)
         \<or> (\<not> timed_out cfg e m (clock_reads w)
            \<and> (\<exists>d. status_reply e (fetches w) (status_url cfg m) = Status_json d
                   \<and> classify (get_or (ds_status d) ''UNKNOWN'') = Refreshable
                   \<and> m' = (polled m d)\<lparr>completed := True, final_status := Some ''UPSERTED''\<rparr>)
            \<and> fetches w' = fetches w + 1)"
proof (cases "timed_out cfg e m (clock_reads w)")
  case True
  from monitor_cycle_timeout [OF True] assms True show ?thesis
    by (auto simp: world_effect_fields)
next
  case False
  show ?thesis
  proof (cases "status_reply e (fetches w) (status_url cfg m)")
    case (Status_failed err)
    from monitor_cycle_fetch_failed [OF False Status_failed] assms show ?thesis by simp
  next
    case (Status_json d)
    from monitor_cycle_fetched [OF False Status_json] assms
    have "handle_store_data cfg (elapsed_at e m (clock_reads w)) d m
            (w\<lparr>clock_reads := clock_reads w + 1, fetches := fetches w + 1\<rparr>) = Break (m', w')"
      by simp
    from handle_store_data_Break [OF this] False Status_json show ?thesis by simp
  qed
qed

lemma monitor_passes_Break_loop:
  "monitor_passes n cfg e mw = Break r \<Longrightarrow> monitor_loop cfg e mw = Some r"
proof (induction n arbitrary: mw)
  case 0
  then show ?case by simp
next
  case (Suc n)
  show ?case
  proof (cases "monitor_cycle cfg e mw")
    case (Break r')
    with Suc.prems show ?thesis by (subst monitor_loop.simps) simp
  next
    case (Continue mw')
    with Suc.prems have "monitor_passes n cfg e mw' = Break r" by simp
    from Suc.IH [OF this] Continue show ?thesis by (subst monitor_loop.simps) simp
  qed
qed

lemma monitor_loop_Some_passes:
  "monitor_loop cfg e mw = Some r \<Longrightarrow> \<exists>n. monitor_passes (Suc n) cfg e mw = Break r"
proof (induction rule: monitor_loop.raw_induct [rotated 1, consumes 1])
  case (1 loop cfg e mw r)
  show ?case
  proof (cases "monitor_cycle cfg e mw")
    case (Break r')
    with 1(2) have "monitor_passes (Suc 0) cfg e mw = Break r" by simp
    then show ?thesis by blast
  next
    case (Continue mw')
    with 1(2) have "loop cfg e mw' = Some r" by simp
    from 1(1) [OF this] obtain n where "monitor_passes (Suc n) cfg e mw' = Break r" by blast
    with Continue have "monitor_passes (Suc (Suc n)) cfg e mw = Break r" by simp
    then show ?thesis by blast
  qed
qed

lemma monitor_passes_add:
  "monitor_passes n cfg e mw = Continue mw' \<Longrightarrow>
   monitor_passes (n + k) cfg e mw = monitor_passes k cfg e mw'"
proof (induction n arbitrary: mw)
  case 0
  then show ?case by simp
next
  case (Suc n)
  then show ?case by (cases "monitor_cycle cfg e mw") simp_all
qed

lemma monitor_passes_Break_mono:
  "monitor_passes n cfg e mw = Break r \<Longrightarrow> monitor_passes (n + k) cfg e mw = Break r"
proof (induction n arbitrary: mw)
  case 0
  then show ?case by simp
next
  case (Suc n)
  then show ?case by (cases "monitor_cycle cfg e mw") simp_all
qed

lemma monitor_loop_None:
  assumes "\<And>n. \<exists>mw'. monitor_passes n cfg e mw = Continue mw'"
  shows "monitor_loop cfg e mw = None"
proof (cases "monitor_loop cfg e mw")
  case None
  then show ?thesis .
next
  case (Some r)
  from monitor_loop_Some_passes [OF Some] obtain n where "monitor_passes (Suc n) cfg e mw = Break r"
    by blast
  with assms [of "Suc n"] show ?thesis by simp
qed

lemma timed_out_cong:
  "start_time m' = start_time m \<Longrightarrow> timed_out cfg e m' k = timed_out cfg e m k"
  by (simp add: timed_out_def elapsed_at_def)

lemma elapsed_at_cong:
  "start_time m' = start_time m \<Longrightarrow> elapsed_at e m' k = elapsed_at e m k"
  by (simp add: elapsed_at_def)

lemma fetch_at_cong:
  "store_id m' = store_id m \<Longrightarrow> fetch_at cfg e m' k = fetch_at cfg e m k"
  by (simp add: fetch_at_def status_url_def)

lemma monitor_cycle_goes_on:
  assumes "\<not> timed_out cfg e m (clock_reads w)"
    and "fetch_bucket (fetch_at cfg e m (fetches w)) \<noteq> Some Refreshable"
  shows "\<exists>m' w'. monitor_cycle cfg e (m, w) = Continue (m', w')"
proof (cases "status_reply e (fetches w) (status_url cfg m)")
  case (Status_failed err)
  from monitor_cycle_fetch_failed [OF assms(1) Status_failed] show ?thesis by blast
next
  case (Status_json d)
  with assms(2) have "classify (get_or (ds_status d) ''UNKNOWN'') \<noteq> Refreshable"
    by (simp add: fetch_bucket_def fetch_at_def)
  then show ?thesis
    unfolding monitor_cycle_fetched [OF assms(1) Status_json]
    by (cases "classify (get_or (ds_status d) ''UNKNOWN'')")
       (simp_all add: handle_store_data_cases Let_def)
qed

lemma monitor_passes_Suc_end:
  "monitor_passes n cfg e mw = Continue mw' \<Longrightarrow>
   monitor_passes (Suc n) cfg e mw = monitor_cycle cfg e mw'"
  using monitor_passes_add [of n cfg e mw mw' 1]
  by (cases "monitor_cycle cfg e mw'") simp_all

lemma monitor_passes_go_on:
  assumes "\<forall>k<n. \<not> timed_out cfg e m (clock_reads w + k)
                \<and> fetch_bucket (fetch_at cfg e m (fetches w + k)) \<noteq> Some Refreshable"
  shows "\<exists>m' w'. monitor_passes n cfg e (m, w) = Continue (m', w')
           \<and> clock_reads w' = clock_reads w + n \<and> fetches w' = fetches w + n
           \<and> requests w' = requests w
           \<and> slept w' = slept w @ replicate n (STATUS_CHECK_INTERVAL cfg)
           \<and> store_id m' = store_id m \<and> start_time m' = start_time m
           \<and> error m' = error m \<and> final_status m' = final_status m"
  using assms
proof (induction n)
  case 0
  show ?case by simp
next
  case (Suc n)
  from Suc.prems have "\<forall>k<n. \<not> timed_out cfg e m (clock_reads w + k)
                \<and> fetch_bucket (fetch_at cfg e m (fetches w + k)) \<noteq> Some Refreshable"
    by simp
  from Suc.IH [OF this] obtain m1 w1 where
    p: "monitor_passes n cfg e (m, w) = Continue (m1, w1)"
    and f: "clock_reads w1 = clock_reads w + n" "fetches w1 = fetches w + n"
      "requests w1 = requests w"
      "slept w1 = slept w @ replicate n (STATUS_CHECK_INTERVAL cfg)"
      "store_id m1 = store_id m" "start_time m1 = start_time m"
      "error m1 = error m" "final_status m1 = final_status m"
    by blast
  from Suc.prems have "\<not> timed_out cfg e m (clock_reads w + n)"
    and "fetch_bucket (fetch_at cfg e m (fetches w + n)) \<noteq> Some Refreshable"
    by simp_all
  with f have "\<not> timed_out cfg e m1 (clock_reads w1)"
    and "fetch_bucket (fetch_at cfg e m1 (fetches w1)) \<noteq> Some Refreshable"
    using timed_out_cong [where m' = m1 and m = m and cfg = cfg and e = e]
      fetch_at_cong [where m' = m1 and m = m and cfg = cfg and e = e]
    by simp_all
  from monitor_cycle_goes_on [OF this] obtain m2 w2 where
    c: "monitor_cycle cfg e (m1, w1) = Continue (m2, w2)" by blast
  from monitor_cycle_Continue [OF c] f have
    "clock_reads w2 = clock_reads w + Suc n \<and> fetches w2 = fetches w + Suc n
       \<and> requests w2 = requests w
       \<and> slept w2 = slept w @ replicate (Suc n) (STATUS_CHECK_INTERVAL cfg)
       \<and> store_id m2 = store_id m \<and> start_time m2 = start_time m
       \<and> error m2 = error m \<and> final_status m2 = final_status m"
    by (auto simp: polled_fields replicate_append_same)
  moreover from monitor_passes_Suc_end [OF p] c
  have "monitor_passes (Suc n) cfg e (m, w) = Continue (m2, w2)" by simp
  ultimately show ?case by blast
qed

lemma monitor_passes_all_failed:
  assumes "\<forall>k<n. \<not> timed_out cfg e m (clock_reads w + k)
                \<and> fetch_fails (fetch_at cfg e m (fetches w + k))"
  shows "\<exists>w'. monitor_passes n cfg e (m, w) = Continue (m, w')
           \<and> clock_reads w' = clock_reads w + n \<and> fetches w' = fetches w + n
           \<and> requests w' = requests w
           \<and> slept w' = slept w @ replicate n (STATUS_CHECK_INTERVAL cfg)"
  using assms
proof (induction n)
  case 0
  show ?case by simp
next
  case (Suc n)
  from Suc.prems have "\<forall>k<n. \<not> timed_out cfg e m (clock_reads w + k)
                \<and> fetch_fails (fetch_at cfg e m (fetches w + k))"
    by simp
  from Suc.IH [OF this] obtain w1 where
    p: "monitor_passes n cfg e (m, w) = Continue (m, w1)"
    and f: "clock_reads w1 = clock_reads w + n" "fetches w1 = fetches w + n"
      "requests w1 = requests w"
      "slept w1 = slept w @ replicate n (STATUS_CHECK_INTERVAL cfg)"
    by blast
  from Suc.prems f have t: "\<not> timed_out cfg e m (clock_reads w1)"
    and "fetch_fails (fetch_at cfg e m (fetches w1))"
    by simp_all
  then obtain err where r: "status_reply e (fetches w1) (status_url cfg m) = Status_failed err"
    by (auto simp: fetch_fails_def fetch_at_def split: status_exchange.splits)
  from monitor_cycle_fetch_failed [OF t r] obtain w2 where
    c: "monitor_cycle cfg e (m, w1) = Continue (m, w2)" by blast
  from monitor_cycle_Continue [OF c] f have
    "clock_reads w2 = clock_reads w + Suc n \<and> fetches w2 = fetches w + Suc n
       \<and> requests w2 = requests w
       \<and> slept w2 = slept w @ replicate (Suc n) (STATUS_CHECK_INTERVAL cfg)"
    by (auto simp: replicate_append_same)
  moreover from monitor_passes_Suc_end [OF p] c
  have "monitor_passes (Suc n) cfg e (m, w) = Continue (m, w2)" by simp
  ultimately show ?case by blast
qed

lemma monitor_loop_timed_out:
  assumes "timed_out cfg e m (clock_reads w)"
  shows "monitor_loop cfg e (m, w) =
     Some (m\<lparr>error := Some (''Timeout after '' @ format_elapsed_time (elapsed_at e m (clock_reads w))),
              completed := True\<rparr>,
           print_msg (Timed_out (store_name m) (format_elapsed_time (elapsed_at e m (clock_reads w)))
                        (iteration_count m))
             (w\<lparr>clock_reads := clock_reads w + 1\<rparr>))"
  by (subst monitor_loop.simps) (simp add: monitor_cycle_timeout [OF assms])

lemma monitor_loop_after_passes:
  "monitor_passes n cfg e mw = Continue mw' \<Longrightarrow> monitor_loop cfg e mw = monitor_loop cfg e mw'"
proof (induction n arbitrary: mw)
  case 0
  then show ?case by simp
next
  case (Suc n)
  show ?case
  proof (cases "monitor_cycle cfg e mw")
    case (Break r)
    with Suc.prems show ?thesis by simp
  next
    case (Continue mw1)
    with Suc.prems have "monitor_passes n cfg e mw1 = Continue mw'" by simp
    from Suc.IH [OF this] Continue show ?thesis by (subst monitor_loop.simps) simp
  qed
qed

lemma busy_or_failed_not_refreshable:
  "b \<in> {None, Some Busy} \<Longrightarrow> b \<noteq> Some Refreshable"
  by auto

lemma monitor_loop_times_out_after:
  assumes go: "\<forall>k<n. \<not> timed_out cfg e m (clock_reads w + k)
                \<and> fetch_bucket (fetch_at cfg e m (fetches w + k)) \<noteq> Some Refreshable"
    and out: "timed_out cfg e m (clock_reads w + n)"
  shows "\<exists>m' w'. monitor_loop cfg e (m, w) = Some (m', w')
           \<and> error m' = Some (''Timeout after ''
                              @ format_elapsed_time (elapsed_at e m (clock_reads w + n)))
           \<and> final_status m' = final_status m
           \<and> completed m' \<and> fetches w' = fetches w + n"
proof -
  from monitor_passes_go_on [OF go] obtain m1 w1 where
    p: "monitor_passes n cfg e (m, w) = Continue (m1, w1)"
    and f: "clock_reads w1 = clock_reads w + n" "fetches w1 = fetches w + n"
      "start_time m1 = start_time m" "final_status m1 = final_status m"
    by blast
  from out f have t: "timed_out cfg e m1 (clock_reads w1)"
    using timed_out_cong [where m' = m1 and m = m and cfg = cfg and e = e] by simp
  from f have el: "elapsed_at e m1 (clock_reads w1) = elapsed_at e m (clock_reads w + n)"
    using elapsed_at_cong [where m' = m1 and m = m and e = e] by simp
  have "monitor_loop cfg e (m, w) = monitor_loop cfg e (m1, w1)"
    using p by (rule monitor_loop_after_passes)
  with monitor_loop_timed_out [OF t] el f show ?thesis
    by (simp add: world_effect_fields)
qed

lemma monitor_loop_never_ends:
  assumes "\<forall>k. \<not> timed_out cfg e m (clock_reads w + k)
                \<and> fetch_bucket (fetch_at cfg e m (fetches w + k)) \<noteq> Some Refreshable"
  shows "monitor_loop cfg e (m, w) = None"
proof (rule monitor_loop_None)
  fix n
  from assms have "\<forall>k<n. \<not> timed_out cfg e m (clock_reads w + k)
                \<and> fetch_bucket (fetch_at cfg e m (fetches w + k)) \<noteq> Some Refreshable"
    by simp
  from monitor_passes_go_on [OF this]
  show "\<exists>mw'. monitor_passes n cfg e (m, w) = Continue mw'" by blast
qed

text \<open>
  Claim C1. When the elapsed time read at the start of a pass exceeds
  \<open>MAX_REFRESH_TIMEOUT\<close>, the loop returns at once: \<open>completed\<close> set, \<open>error\<close> holding
  the formatted elapsed time, iteration count untouched, and no status fetch issued (only the
  clock reading and the printed message are added to the trace). As long as no reading has
  exceeded the timeout and every successful fetch classifies as Busy, the loop has not ended
  after any number of passes; if that holds forever the loop never returns; and it returns
  timed out at the first reading that exceeds the limit.
\<close>

theorem monitor_times_out_only_past_the_limit:
  "(timed_out cfg e m (clock_reads w) \<longrightarrow>
      monitor_loop cfg e (m, w) =
        Some (m\<lparr>error := Some (''Timeout after ''
                                @ format_elapsed_time (elapsed_at e m (clock_reads w))),
                 completed := True\<rparr>,
              print_msg (Timed_out (store_name m)
                           (format_elapsed_time (elapsed_at e m (clock_reads w)))
                           (iteration_count m))
                (w\<lparr>clock_reads := clock_reads w + 1\<rparr>)))
   \<and> ((\<forall>k<n. \<not> timed_out cfg e m (clock_reads w + k)
              \<and> fetch_bucket (fetch_at cfg e m (fetches w + k)) \<in> {None, Some Busy}) \<longrightarrow>
        \<not> is_break (monitor_passes n cfg e (m, w)))
   \<and> ((\<forall>k. \<not> timed_out cfg e m (clock_reads w + k)
            \<and> fetch_bucket (fetch_at cfg e m (fetches w + k)) \<in> {None, Some Busy}) \<longrightarrow>
        monitor_loop cfg e (m, w) = None)
   \<and> ((\<forall>k<n. \<not> timed_out cfg e m (clock_reads w + k)
              \<and> fetch_bucket (fetch_at cfg e m (fetches w + k)) \<in> {None, Some Busy})
        \<and> timed_out cfg e m (clock_reads w + n) \<longrightarrow>
        (\<exists>m' w'. monitor_loop cfg e (m, w) = Some (m', w')
           \<and> error m' = Some (''Timeout after ''
                              @ format_elapsed_time (elapsed_at e m (clock_reads w + n)))
           \<and> completed m' \<and> fetches w' = fetches w + n))"
proof (intro conjI impI)
  assume "timed_out cfg e m (clock_reads w)"
  then show "monitor_loop cfg e (m, w) =
        Some (m\<lparr>error := Some (''Timeout after ''
                                @ format_elapsed_time (elapsed_at e m (clock_reads w))),
                 completed := True\<rparr>,
              print_msg (Timed_out (store_name m)
                           (format_elapsed_time (elapsed_at e m (clock_reads w)))
                           (iteration_count m))
                (w\<lparr>clock_reads := clock_reads w + 1\<rparr>))"
    by (rule monitor_loop_timed_out)
next
  assume "\<forall>k<n. \<not> timed_out cfg e m (clock_reads w + k)
              \<and> fetch_bucket (fetch_at cfg e m (fetches w + k)) \<in> {None, Some Busy}"
  then have "\<forall>k<n. \<not> timed_out cfg e m (clock_reads w + k)
              \<and> fetch_bucket (fetch_at cfg e m (fetches w + k)) \<noteq> Some Refreshable"
    using busy_or_failed_not_refreshable by blast
  from monitor_passes_go_on [OF this] show "\<not> is_break (monitor_passes n cfg e (m, w))"
    by auto
next
  assume "\<forall>k. \<not> timed_out cfg e m (clock_reads w + k)
              \<and> fetch_bucket (fetch_at cfg e m (fetches w + k)) \<in> {None, Some Busy}"
  then have "\<forall>k. \<not> timed_out cfg e m (clock_reads w + k)
              \<and> fetch_bucket (fetch_at cfg e m (fetches w + k)) \<noteq> Some Refreshable"
    using busy_or_failed_not_refreshable by blast
  then show "monitor_loop cfg e (m, w) = None" by (rule monitor_loop_never_ends)
next
  assume a: "(\<forall>k<n. \<not> timed_out cfg e m (clock_reads w + k)
              \<and> fetch_bucket (fetch_at cfg e m (fetches w + k)) \<in> {None, Some Busy})
        \<and> timed_out cfg e m (clock_reads w + n)"
  then have "\<forall>k<n. \<not> timed_out cfg e m (clock_reads w + k)
              \<and> fetch_bucket (fetch_at cfg e m (fetches w + k)) \<noteq> Some Refreshable"
    using busy_or_failed_not_refreshable by blast
  from monitor_loop_times_out_after [OF this] a
  show "\<exists>m' w'. monitor_loop cfg e (m, w) = Some (m', w')
           \<and> error m' = Some (''Timeout after ''
                              @ format_elapsed_time (elapsed_at e m (clock_reads w + n)))
           \<and> completed m' \<and> fetches w' = fetches w + n"
    by blast
qed

lemma RefreshMonitor_fields:
  "start_time (fst (RefreshMonitor e st w)) = now e (clock_reads w)"
  "store_id (fst (RefreshMonitor e st w)) = ds_id st"
  "store_name (fst (RefreshMonitor e st w)) = get_or (ds_name st) ''Unnamed Store''"
  "error (fst (RefreshMonitor e st w)) = None"
  "final_status (fst (RefreshMonitor e st w)) = None"
  "completed (fst (RefreshMonitor e st w)) = False"
  "iteration_count (fst (RefreshMonitor e st w)) = 0"
  "last_chunks (fst (RefreshMonitor e st w)) = 0"
  "initial_chunks (fst (RefreshMonitor e st w)) = get_or (ds_totalChunks st) 0"
  "snd (RefreshMonitor e st w) = w\<lparr>clock_reads := clock_reads w + 1\<rparr>"
  by (simp_all add: RefreshMonitor_def time_time_def)

lemma scripted_remote_fields:
  "now (scripted_remote clock script dflt) = clock"
  "status_reply (scripted_remote clock script dflt) k url =
     (if k < length script then script ! k else dflt)"
  "refresh_reply (scripted_remote clock script dflt) sent req = Ok_response 200 ''{}'' []"
  by (simp_all add: scripted_remote_def)

lemma upper_syncing: "upper ''syncing'' = ''SYNCING''"
  by (simp add: upper_def upper_char_def)

lemma classify_syncing: "classify ''syncing'' = Busy"
  by (simp add: classify_Busy_iff upper_syncing BUSY_STATUSES_def)

lemma busy_remote_bucket:
  "fetch_bucket (fetch_at cfg (busy_remote clock) m k) = Some Busy"
  by (simp add: fetch_bucket_def fetch_at_def busy_remote_def scripted_remote_fields
        sample_store_def get_or_def classify_syncing)

lemma busy_remote_timed_out:
  "timed_out example_config (busy_remote clock)
     (fst (RefreshMonitor (busy_remote clock) st world0)) k = (600 < clock k - clock 0)"
  by (simp add: timed_out_def elapsed_at_def RefreshMonitor_fields busy_remote_def
        scripted_remote_fields example_config_def world0_fields)

lemma format_615: "format_elapsed_time 615 = ''10m 15s''"
  by (simp add: format_elapsed_time_def py_int_def fdiv_def fmod_def str_int_def str_nat.simps
        digit_char_def Let_def)

text \<open>
  With a 600 second limit and a clock advancing 15 seconds per reading, an always-busy store
  is still being polled after 40 passes (elapsed exactly 600) and times out at the next
  reading (615); with a clock standing still the loop never returns.
\<close>

theorem monitor_times_out_only_past_the_limit_witness:
  "\<not> is_break (monitor_passes 40 example_config (busy_remote ticking_clock)
                  (RefreshMonitor (busy_remote ticking_clock) (sample_store ''UPSERTED'' 100) world0))
   \<and> (\<exists>m' w'. monitor_loop example_config (busy_remote ticking_clock)
                  (RefreshMonitor (busy_remote ticking_clock) (sample_store ''UPSERTED'' 100) world0)
                = Some (m', w')
              \<and> error m' = Some ''Timeout after 10m 15s'' \<and> completed m' \<and> fetches w' = 40)
   \<and> monitor_loop example_config (busy_remote frozen_clock)
         (RefreshMonitor (busy_remote frozen_clock) (sample_store ''UPSERTED'' 100) world0) = None
   \<and> map_option (\<lambda>r. (error (fst r), completed (fst r), iteration_count (fst r), fetches (snd r)))
         (monitor_loop example_config (busy_remote ticking_clock)
            (fst (RefreshMonitor (busy_remote ticking_clock) (sample_store ''UPSERTED'' 100) world0),
             world0\<lparr>clock_reads := 41\<rparr>))
       = Some (Some ''Timeout after 10m 15s'', True, 0, 0)"
proof -
  let ?eA = "busy_remote ticking_clock" and ?eB = "busy_remote frozen_clock"
  let ?st = "sample_store ''UPSERTED'' 100"
  let ?RA = "RefreshMonitor ?eA ?st world0" and ?RB = "RefreshMonitor ?eB ?st world0"
  have cA: "clock_reads (snd ?RA) = 1" "fetches (snd ?RA) = 0"
    by (simp_all add: RefreshMonitor_fields world0_fields)
  have cB: "clock_reads (snd ?RB) = 1" "fetches (snd ?RB) = 0"
    by (simp_all add: RefreshMonitor_fields world0_fields)
  have goA: "\<forall>k<40. \<not> timed_out example_config ?eA (fst ?RA) (clock_reads (snd ?RA) + k)
      \<and> fetch_bucket (fetch_at example_config ?eA (fst ?RA) (fetches (snd ?RA) + k)) \<in> {None, Some Busy}"
    by (simp add: cA busy_remote_timed_out busy_remote_bucket ticking_clock_def)
  have outA: "timed_out example_config ?eA (fst ?RA) (clock_reads (snd ?RA) + 40)"
    by (simp add: cA busy_remote_timed_out ticking_clock_def)
  have goB: "\<forall>k. \<not> timed_out example_config ?eB (fst ?RB) (clock_reads (snd ?RB) + k)
      \<and> fetch_bucket (fetch_at example_config ?eB (fst ?RB) (fetches (snd ?RB) + k)) \<in> {None, Some Busy}"
    by (simp add: cB busy_remote_timed_out busy_remote_bucket frozen_clock_def)
  have out41: "timed_out example_config ?eA (fst ?RA) (clock_reads (world0\<lparr>clock_reads := 41\<rparr>))"
    by (simp add: busy_remote_timed_out ticking_clock_def)
  have elA: "elapsed_at ?eA (fst ?RA) 41 = 615"
    by (simp add: elapsed_at_def RefreshMonitor_fields busy_remote_def scripted_remote_fields
          ticking_clock_def world0_fields)
  note A = monitor_times_out_only_past_the_limit
             [of example_config ?eA "fst ?RA" "snd ?RA" 40, unfolded prod.collapse]
  note B = monitor_times_out_only_past_the_limit
             [of example_config ?eB "fst ?RB" "snd ?RB" 0, unfolded prod.collapse]
  note C = monitor_times_out_only_past_the_limit
             [of example_config ?eA "fst ?RA" "world0\<lparr>clock_reads := 41\<rparr>" 0]
  from A goA have 1: "\<not> is_break (monitor_passes 40 example_config ?eA ?RA)" by blast
  from A goA outA have "\<exists>m' w'. monitor_loop example_config ?eA ?RA = Some (m', w')
      \<and> error m' = Some (''Timeout after ''
            @ format_elapsed_time (elapsed_at ?eA (fst ?RA) (clock_reads (snd ?RA) + 40)))
      \<and> completed m' \<and> fetches w' = fetches (snd ?RA) + 40"
    by blast
  then have 2: "\<exists>m' w'. monitor_loop example_config ?eA ?RA = Some (m', w')
      \<and> error m' = Some ''Timeout after 10m 15s'' \<and> completed m' \<and> fetches w' = 40"
    by (simp add: cA elA format_615)
  from B goB have 3: "monitor_loop example_config ?eB ?RB = None" by blast
  from C out41 have 4: "map_option (\<lambda>r. (error (fst r), completed (fst r), iteration_count (fst r), fetches (snd r)))
         (monitor_loop example_config ?eA (fst ?RA, world0\<lparr>clock_reads := 41\<rparr>))
       = Some (Some ''Timeout after 10m 15s'', True, 0, 0)"
    by (simp add: elA format_615 world_effect_fields RefreshMonitor_fields world0_fields)
  from 1 2 3 4 show ?thesis by blast
qed

lemma monitor_cycle_iteration_count:
  "iteration_count (fst (step_state (monitor_cycle cfg e (m, w)))) =
     iteration_count m
       + (if \<not> timed_out cfg e m (clock_reads w) \<and> \<not> fetch_fails (fetch_at cfg e m (fetches w))
          then 1 else 0)"
proof (cases "timed_out cfg e m (clock_reads w)")
  case True
  then show ?thesis by (simp add: monitor_cycle_timeout)
next
  case False
  show ?thesis
  proof (cases "status_reply e (fetches w) (status_url cfg m)")
    case (Status_failed err)
    with False show ?thesis
      by (simp add: monitor_cycle_fetch_failed fetch_fails_def fetch_at_def)
  next
    case (Status_json d)
    with False show ?thesis
      by (cases "classify (get_or (ds_status d) ''UNKNOWN'')")
         (simp_all add: monitor_cycle_fetched handle_store_data_cases Let_def polled_fields
            fetch_fails_def fetch_at_def)
  qed
qed

lemma monitor_loop_all_failed_then_timeout:
  assumes go: "\<forall>k<n. \<not> timed_out cfg e m (clock_reads w + k)
                \<and> fetch_fails (fetch_at cfg e m (fetches w + k))"
    and out: "timed_out cfg e m (clock_reads w + n)"
  shows "\<exists>w'. monitor_loop cfg e (m, w) =
             Some (m\<lparr>error := Some (''Timeout after ''
                         @ format_elapsed_time (elapsed_at e m (clock_reads w + n))),
                      completed := True\<rparr>, w')
           \<and> fetches w' = fetches w + n"
proof -
  from monitor_passes_all_failed [OF go] obtain w1 where
    p: "monitor_passes n cfg e (m, w) = Continue (m, w1)"
    and f: "clock_reads w1 = clock_reads w + n" "fetches w1 = fetches w + n"
    by blast
  from out f have t: "timed_out cfg e m (clock_reads w1)" by simp
  have "monitor_loop cfg e (m, w) = monitor_loop cfg e (m, w1)"
    using p by (rule monitor_loop_after_passes)
  with monitor_loop_timed_out [OF t] f show ?thesis
    by (simp add: world_effect_fields)
qed

lemma fetch_fails_not_refreshable:
  "fetch_fails x \<Longrightarrow> fetch_bucket x \<noteq> Some Refreshable"
  by (cases x) (simp_all add: fetch_fails_def fetch_bucket_def)

text \<open>
  Claim C2. A pass whose status fetch fails, within the timeout, goes on to the next pass
  with the monitor unchanged (so the iteration count too), one more fetch issued and one
  sleep of \<open>STATUS_CHECK_INTERVAL\<close> added. This repeats for as many passes as the fetch keeps
  failing: forever if the timeout never fires, until the timed-out return (iteration count
  still unchanged) when it does, or until a fetch succeeds, which is what raises the
  iteration count. In every pass the count grows by one exactly when a fetch succeeded.
\<close>

theorem fetch_failure_is_retried:
  "(\<not> timed_out cfg e m (clock_reads w) \<and> fetch_fails (fetch_at cfg e m (fetches w)) \<longrightarrow>
      (\<exists>w'. monitor_cycle cfg e (m, w) = Continue (m, w') \<and> fetches w' = fetches w + 1
            \<and> slept w' = slept w @ [STATUS_CHECK_INTERVAL cfg]))
   \<and> ((\<forall>k<n. \<not> timed_out cfg e m (clock_reads w + k)
              \<and> fetch_fails (fetch_at cfg e m (fetches w + k))) \<longrightarrow>
        (\<exists>w'. monitor_passes n cfg e (m, w) = Continue (m, w') \<and> fetches w' = fetches w + n
              \<and> slept w' = slept w @ replicate n (STATUS_CHECK_INTERVAL cfg)))
   \<and> ((\<forall>k. \<not> timed_out cfg e m (clock_reads w + k)
            \<and> fetch_fails (fetch_at cfg e m (fetches w + k))) \<longrightarrow>
        monitor_loop cfg e (m, w) = None)
   \<and> ((\<forall>k<n. \<not> timed_out cfg e m (clock_reads w + k)
              \<and> fetch_fails (fetch_at cfg e m (fetches w + k)))
        \<and> timed_out cfg e m (clock_reads w + n) \<longrightarrow>
        (\<exists>w'. monitor_loop cfg e (m, w) =
                 Some (m\<lparr>error := Some (''Timeout after ''
                             @ format_elapsed_time (elapsed_at e m (clock_reads w + n))),
                          completed := True\<rparr>, w')
              \<and> fetches w' = fetches w + n))
   \<and> ((\<forall>k<n. \<not> timed_out cfg e m (clock_reads w + k)
              \<and> fetch_fails (fetch_at cfg e m (fetches w + k)))
        \<and> \<not> timed_out cfg e m (clock_reads w + n)
        \<and> \<not> fetch_fails (fetch_at cfg e m (fetches w + n)) \<longrightarrow>
        iteration_count (fst (step_state (monitor_passes (Suc n) cfg e (m, w)))) =
          iteration_count m + 1)
   \<and> iteration_count (fst (step_state (monitor_cycle cfg e (m, w)))) =
       iteration_count m
         + (if \<not> timed_out cfg e m (clock_reads w)
               \<and> \<not> fetch_fails (fetch_at cfg e m (fetches w))
            then 1 else 0)"
proof (intro conjI impI)
  assume a: "\<not> timed_out cfg e m (clock_reads w) \<and> fetch_fails (fetch_at cfg e m (fetches w))"
  then have "\<forall>k<Suc 0. \<not> timed_out cfg e m (clock_reads w + k)
              \<and> fetch_fails (fetch_at cfg e m (fetches w + k))"
    by simp
  from monitor_passes_all_failed [OF this]
  show "\<exists>w'. monitor_cycle cfg e (m, w) = Continue (m, w') \<and> fetches w' = fetches w + 1
            \<and> slept w' = slept w @ [STATUS_CHECK_INTERVAL cfg]"
    by (cases "monitor_cycle cfg e (m, w)") auto
next
  assume "\<forall>k<n. \<not> timed_out cfg e m (clock_reads w + k)
              \<and> fetch_fails (fetch_at cfg e m (fetches w + k))"
  from monitor_passes_all_failed [OF this]
  show "\<exists>w'. monitor_passes n cfg e (m, w) = Continue (m, w') \<and> fetches w' = fetches w + n
              \<and> slept w' = slept w @ replicate n (STATUS_CHECK_INTERVAL cfg)"
    by blast
next
  assume "\<forall>k. \<not> timed_out cfg e m (clock_reads w + k)
            \<and> fetch_fails (fetch_at cfg e m (fetches w + k))"
  then have "\<forall>k. \<not> timed_out cfg e m (clock_reads w + k)
            \<and> fetch_bucket (fetch_at cfg e m (fetches w + k)) \<noteq> Some Refreshable"
    using fetch_fails_not_refreshable by blast
  then show "monitor_loop cfg e (m, w) = None" by (rule monitor_loop_never_ends)
next
  assume "(\<forall>k<n. \<not> timed_out cfg e m (clock_reads w + k)
              \<and> fetch_fails (fetch_at cfg e m (fetches w + k)))
        \<and> timed_out cfg e m (clock_reads w + n)"
  then show "\<exists>w'. monitor_loop cfg e (m, w) =
                 Some (m\<lparr>error := Some (''Timeout after ''
                             @ format_elapsed_time (elapsed_at e m (clock_reads w + n))),
                          completed := True\<rparr>, w')
              \<and> fetches w' = fetches w + n"
    using monitor_loop_all_failed_then_timeout by blast
next
  assume a: "(\<forall>k<n. \<not> timed_out cfg e m (clock_reads w + k)
              \<and> fetch_fails (fetch_at cfg e m (fetches w + k)))
        \<and> \<not> timed_out cfg e m (clock_reads w + n)
        \<and> \<not> fetch_fails (fetch_at cfg e m (fetches w + n))"
  then have "\<forall>k<n. \<not> timed_out cfg e m (clock_reads w + k)
              \<and> fetch_fails (fetch_at cfg e m (fetches w + k))"
    by blast
  from monitor_passes_all_failed [OF this] obtain w1 where
    p: "monitor_passes n cfg e (m, w) = Continue (m, w1)"
    and f: "clock_reads w1 = clock_reads w + n" "fetches w1 = fetches w + n"
    by blast
  from a f have "\<not> timed_out cfg e m (clock_reads w1)
      \<and> \<not> fetch_fails (fetch_at cfg e m (fetches w1))"
    by simp
  then show "iteration_count (fst (step_state (monitor_passes (Suc n) cfg e (m, w)))) =
          iteration_count m + 1"
    unfolding monitor_passes_Suc_end [OF p] monitor_cycle_iteration_count by simp
next
  show "iteration_count (fst (step_state (monitor_cycle cfg e (m, w)))) =
       iteration_count m
         + (if \<not> timed_out cfg e m (clock_reads w)
               \<and> \<not> fetch_fails (fetch_at cfg e m (fetches w))
            then 1 else 0)"
    by (rule monitor_cycle_iteration_count)
qed

lemma scripted_remote_timed_out:
  "timed_out example_config (scripted_remote clock script dflt)
     (fst (RefreshMonitor (scripted_remote clock script dflt) st world0)) k =
   (600 < clock k - clock 0)"
  by (simp add: timed_out_def elapsed_at_def RefreshMonitor_fields
        scripted_remote_fields example_config_def world0_fields)

lemma scripted_remote_fetch_at:
  "fetch_at cfg (scripted_remote clock script dflt) m k =
     (if k < length script then script ! k else dflt)"
  by (simp add: fetch_at_def scripted_remote_fields)

lemma RefreshMonitor_world0:
  "clock_reads (snd (RefreshMonitor e st world0)) = 1"
  "fetches (snd (RefreshMonitor e st world0)) = 0"
  "slept (snd (RefreshMonitor e st world0)) = []"
  "requests (snd (RefreshMonitor e st world0)) = []"
  "printed (snd (RefreshMonitor e st world0)) = []"
  "logged (snd (RefreshMonitor e st world0)) = []"
  by (simp_all add: RefreshMonitor_fields world0_fields)

text \<open>
  A fetch that fails once and then succeeds: the failing pass leaves the monitor as it was
  and sleeps 15 seconds, the second pass brings the iteration count to 1. A remote that is
  never reachable: three passes, three fetches, three sleeps, the loop never returns while
  the clock stands still and returns timed out, iteration count 0, when the clock advances.
\<close>

theorem fetch_failure_is_retried_witness:
  "(\<exists>w'. monitor_cycle example_config (recovering_remote frozen_clock)
            (RefreshMonitor (recovering_remote frozen_clock) (sample_store ''UPSERTED'' 100) world0) =
          Continue (fst (RefreshMonitor (recovering_remote frozen_clock)
                           (sample_store ''UPSERTED'' 100) world0), w')
        \<and> fetches w' = 1 \<and> slept w' = [15])
   \<and> iteration_count (fst (step_state (monitor_passes 2 example_config (recovering_remote frozen_clock)
         (RefreshMonitor (recovering_remote frozen_clock) (sample_store ''UPSERTED'' 100) world0)))) = 1
   \<and> (\<exists>w'. monitor_passes 3 example_config (unreachable_remote frozen_clock)
            (RefreshMonitor (unreachable_remote frozen_clock) (sample_store ''UPSERTED'' 100) world0) =
          Continue (fst (RefreshMonitor (unreachable_remote frozen_clock)
                           (sample_store ''UPSERTED'' 100) world0), w')
        \<and> fetches w' = 3 \<and> slept w' = [15, 15, 15])
   \<and> monitor_loop example_config (unreachable_remote frozen_clock)
         (RefreshMonitor (unreachable_remote frozen_clock) (sample_store ''UPSERTED'' 100) world0) = None
   \<and> (\<exists>w'. monitor_loop example_config (unreachable_remote ticking_clock)
            (RefreshMonitor (unreachable_remote ticking_clock) (sample_store ''UPSERTED'' 100) world0) =
          Some ((fst (RefreshMonitor (unreachable_remote ticking_clock)
                        (sample_store ''UPSERTED'' 100) world0))
                  \<lparr>error := Some ''Timeout after 10m 15s'', completed := True\<rparr>, w')
        \<and> fetches w' = 40)
   \<and> iteration_count (fst (RefreshMonitor (unreachable_remote ticking_clock)
                              (sample_store ''UPSERTED'' 100) world0)) = 0"
proof -
  let ?st = "sample_store ''UPSERTED'' 100"
  let ?eR = "recovering_remote frozen_clock"
  let ?eU = "unreachable_remote frozen_clock"
  let ?eT = "unreachable_remote ticking_clock"
  let ?RR = "RefreshMonitor ?eR ?st world0"
  let ?RU = "RefreshMonitor ?eU ?st world0"
  let ?RT = "RefreshMonitor ?eT ?st world0"
  note defs = recovering_remote_def unreachable_remote_def scripted_remote_timed_out
    scripted_remote_fetch_at RefreshMonitor_world0 frozen_clock_def ticking_clock_def
    fetch_fails_def
  note R = fetch_failure_is_retried [of example_config ?eR "fst ?RR" "snd ?RR" 1, unfolded prod.collapse]
  note U = fetch_failure_is_retried [of example_config ?eU "fst ?RU" "snd ?RU" 3, unfolded prod.collapse]
  note T = fetch_failure_is_retried [of example_config ?eT "fst ?RT" "snd ?RT" 40, unfolded prod.collapse]
  have r0: "\<not> timed_out example_config ?eR (fst ?RR) (clock_reads (snd ?RR))
      \<and> fetch_fails (fetch_at example_config ?eR (fst ?RR) (fetches (snd ?RR)))"
    by (simp add: defs)
  have r1: "(\<forall>k<1. \<not> timed_out example_config ?eR (fst ?RR) (clock_reads (snd ?RR) + k)
              \<and> fetch_fails (fetch_at example_config ?eR (fst ?RR) (fetches (snd ?RR) + k)))
        \<and> \<not> timed_out example_config ?eR (fst ?RR) (clock_reads (snd ?RR) + 1)
        \<and> \<not> fetch_fails (fetch_at example_config ?eR (fst ?RR) (fetches (snd ?RR) + 1))"
    by (simp add: defs)
  have u3: "\<forall>k<3. \<not> timed_out example_config ?eU (fst ?RU) (clock_reads (snd ?RU) + k)
              \<and> fetch_fails (fetch_at example_config ?eU (fst ?RU) (fetches (snd ?RU) + k))"
    by (simp add: defs)
  have uall: "\<forall>k. \<not> timed_out example_config ?eU (fst ?RU) (clock_reads (snd ?RU) + k)
              \<and> fetch_fails (fetch_at example_config ?eU (fst ?RU) (fetches (snd ?RU) + k))"
    by (simp add: defs)
  have t40: "(\<forall>k<40. \<not> timed_out example_config ?eT (fst ?RT) (clock_reads (snd ?RT) + k)
              \<and> fetch_fails (fetch_at example_config ?eT (fst ?RT) (fetches (snd ?RT) + k)))
        \<and> timed_out example_config ?eT (fst ?RT) (clock_reads (snd ?RT) + 40)"
    by (simp add: defs)
  have elT: "elapsed_at ?eT (fst ?RT) 41 = 615"
    by (simp add: elapsed_at_def RefreshMonitor_fields unreachable_remote_def
          scripted_remote_fields ticking_clock_def world0_fields)
  have interval: "STATUS_CHECK_INTERVAL example_config = 15"
    by (simp add: example_config_def)
  from R r0 have 1: "\<exists>w'. monitor_cycle example_config ?eR ?RR = Continue (fst ?RR, w')
        \<and> fetches w' = 1 \<and> slept w' = [15]"
    by (simp add: RefreshMonitor_world0 interval)
  from R r1 have 2: "iteration_count (fst (step_state (monitor_passes 2 example_config ?eR ?RR))) = 1"
    by (simp add: RefreshMonitor_fields numeral_2_eq_2)
  from U u3 have 3: "\<exists>w'. monitor_passes 3 example_config ?eU ?RU = Continue (fst ?RU, w')
        \<and> fetches w' = 3 \<and> slept w' = [15, 15, 15]"
    by (simp add: RefreshMonitor_world0 interval numeral_3_eq_3)
  from U uall have 4: "monitor_loop example_config ?eU ?RU = None" by blast
  from T t40 have "\<exists>w'. monitor_loop example_config ?eT ?RT =
          Some ((fst ?RT)\<lparr>error := Some (''Timeout after ''
                   @ format_elapsed_time (elapsed_at ?eT (fst ?RT) (clock_reads (snd ?RT) + 40))),
                 completed := True\<rparr>, w')
        \<and> fetches w' = fetches (snd ?RT) + 40"
    by blast
  then have 5: "\<exists>w'. monitor_loop example_config ?eT ?RT =
          Some ((fst ?RT)\<lparr>error := Some ''Timeout after 10m 15s'', completed := True\<rparr>, w')
        \<and> fetches w' = 40"
    by (simp add: RefreshMonitor_world0 elT format_615)
  have 6: "iteration_count (fst ?RT) = 0" by (simp add: RefreshMonitor_fields)
  from 1 2 3 4 5 6 show ?thesis by blast
qed

lemma fmt_commas_small:
  "fmt_commas 100 = ''100''" "fmt_commas 140 = ''140''" "fmt_commas 200 = ''200''"
  "fmt_commas 40 = ''40''" "fmt_commas 60 = ''60''"
  by (simp_all add: fmt_commas_def str_nat.simps digit_char_def)

lemma format_0: "format_elapsed_time 0 = ''0s''"
  by (simp add: format_elapsed_time_def py_int_def str_int_def str_nat.simps digit_char_def)

lemma chunk_run:
  "busy_chunk_infos
     (printed (snd (step_state
        (monitor_passes 8 example_config chunk_remote
           (RefreshMonitor chunk_remote (sample_store ''UPSERTED'' 100) world0))))) =
     [''Chunks: 100'', ''Chunks: 140 (+40 since last check)'', ''Chunks: 140'',
      ''Chunks: 200 (+60 since last check)'']"
  by (simp add: numeral_nat monitor_cycle_def time_time_def fetch_document_store_status_def
        handle_store_data_def Let_def chunk_remote_def chunk_script_def scripted_remote_def
        frozen_clock_def sample_store_def RefreshMonitor_def world0_def example_config_def
        get_or_def upper_syncing REFRESHABLE_STATUSES_def BUSY_STATUSES_def print_msg_def
        asyncio_sleep_def log_msg_def chunk_info_text_def fmt_commas_small format_0 py_str_def)

text \<open>
  Claim C6, as amended. A successful poll sets \<open>last_chunks\<close> to the chunk count it read, and a busy
  poll prints the chunk line with the delta taken against the \<open>last_chunks\<close> it found, or
  with no delta when it is the first successful poll (iteration count 0 before it). A failed
  fetch leaves \<open>last_chunks\<close> and the iteration count as they were, so the next delta is
  taken against the previous successful poll. For successful polls reporting 100, 140, 140
  and 200 chunks, with failed fetches in between, the chunk lines carry no delta, +40, no
  delta (the difference is 0, and a zero delta is not printed) and +60.
\<close>

theorem chunk_delta_against_previous_successful_poll:
  "(\<not> timed_out cfg e m (clock_reads w) \<and> fetch_at cfg e m (fetches w) = Status_json d \<longrightarrow>
      last_chunks (fst (step_state (monitor_cycle cfg e (m, w)))) = get_or (ds_totalChunks d) 0
      \<and> (classify (get_or (ds_status d) ''UNKNOWN'') = Busy \<longrightarrow>
           monitor_cycle cfg e (m, w) =
             Continue (polled m d,
               asyncio_sleep (STATUS_CHECK_INTERVAL cfg)
                 (print_msg
                    (Busy_report (store_name m) (upper (get_or (ds_status d) ''UNKNOWN''))
                       (iteration_count m + 1)
                       (chunk_info_text (get_or (ds_totalChunks d) 0)
                          (if iteration_count m \<ge> 1
                           then get_or (ds_totalChunks d) 0 - last_chunks m else 0))
                       (format_elapsed_time (elapsed_at e m (clock_reads w)))
                       (STATUS_CHECK_INTERVAL cfg))
                    (w\<lparr>clock_reads := clock_reads w + 1, fetches := fetches w + 1\<rparr>)))))
   \<and> (\<not> timed_out cfg e m (clock_reads w) \<and> fetch_fails (fetch_at cfg e m (fetches w)) \<longrightarrow>
        last_chunks (fst (step_state (monitor_cycle cfg e (m, w)))) = last_chunks m
        \<and> iteration_count (fst (step_state (monitor_cycle cfg e (m, w)))) = iteration_count m)
   \<and> busy_chunk_infos
        (printed (snd (step_state
           (monitor_passes 8 example_config chunk_remote
              (RefreshMonitor chunk_remote (sample_store ''UPSERTED'' 100) world0))))) =
        [''Chunks: 100'', ''Chunks: 140 (+40 since last check)'', ''Chunks: 140'',
         ''Chunks: 200 (+60 since last check)'']"
proof (intro conjI impI)
  assume a: "\<not> timed_out cfg e m (clock_reads w) \<and> fetch_at cfg e m (fetches w) = Status_json d"
  then have c: "monitor_cycle cfg e (m, w) =
      handle_store_data cfg (elapsed_at e m (clock_reads w)) d m
        (w\<lparr>clock_reads := clock_reads w + 1, fetches := fetches w + 1\<rparr>)"
    by (intro monitor_cycle_fetched) (simp_all add: fetch_at_def)
  show "last_chunks (fst (step_state (monitor_cycle cfg e (m, w)))) = get_or (ds_totalChunks d) 0"
    unfolding c
    by (cases "classify (get_or (ds_status d) ''UNKNOWN'')")
       (simp_all add: handle_store_data_cases Let_def polled_fields)
  assume "classify (get_or (ds_status d) ''UNKNOWN'') = Busy"
  then show "monitor_cycle cfg e (m, w) =
             Continue (polled m d,
               asyncio_sleep (STATUS_CHECK_INTERVAL cfg)
                 (print_msg
                    (Busy_report (store_name m) (upper (get_or (ds_status d) ''UNKNOWN''))
                       (iteration_count m + 1)
                       (chunk_info_text (get_or (ds_totalChunks d) 0)
                          (if iteration_count m \<ge> 1
                           then get_or (ds_totalChunks d) 0 - last_chunks m else 0))
                       (format_elapsed_time (elapsed_at e m (clock_reads w)))
                       (STATUS_CHECK_INTERVAL cfg))
                    (w\<lparr>clock_reads := clock_reads w + 1, fetches := fetches w + 1\<rparr>)))"
    unfolding c by (simp add: handle_store_data_cases Let_def poll_delta_def)
next
  assume a: "\<not> timed_out cfg e m (clock_reads w) \<and> fetch_fails (fetch_at cfg e m (fetches w))"
  then obtain err where r: "status_reply e (fetches w) (status_url cfg m) = Status_failed err"
    by (auto simp: fetch_fails_def fetch_at_def split: status_exchange.splits)
  from a have t: "\<not> timed_out cfg e m (clock_reads w)" by simp
  show "last_chunks (fst (step_state (monitor_cycle cfg e (m, w)))) = last_chunks m"
    by (simp add: monitor_cycle_fetch_failed [OF t r])
  show "iteration_count (fst (step_state (monitor_cycle cfg e (m, w)))) = iteration_count m"
    by (simp add: monitor_cycle_fetch_failed [OF t r])
next
  show "busy_chunk_infos
        (printed (snd (step_state
           (monitor_passes 8 example_config chunk_remote
              (RefreshMonitor chunk_remote (sample_store ''UPSERTED'' 100) world0))))) =
        [''Chunks: 100'', ''Chunks: 140 (+40 since last check)'', ''Chunks: 140'',
         ''Chunks: 200 (+60 since last check)'']"
    by (rule chunk_run)
qed

text \<open>
  A monitor that has polled once and holds 60 chunks, in its second pass: a busy store with
  100 chunks is reported with +40 and \<open>last_chunks\<close> becomes 100; a failed fetch leaves
  \<open>last_chunks\<close> at 60 and the iteration count at 1.
\<close>

theorem chunk_delta_against_previous_successful_poll_witness:
  "last_chunks (fst (step_state (monitor_cycle example_config (busy_remote frozen_clock)
      ((fst (RefreshMonitor (busy_remote frozen_clock) (sample_store ''UPSERTED'' 100) world0))
         \<lparr>iteration_count := 1, last_chunks := 60\<rparr>, world0)))) = 100
   \<and> busy_chunk_infos (printed (snd (step_state (monitor_cycle example_config (busy_remote frozen_clock)
      ((fst (RefreshMonitor (busy_remote frozen_clock) (sample_store ''UPSERTED'' 100) world0))
         \<lparr>iteration_count := 1, last_chunks := 60\<rparr>, world0))))) =
       [''Chunks: 100 (+40 since last check)'']
   \<and> last_chunks (fst (step_state (monitor_cycle example_config (unreachable_remote frozen_clock)
      ((fst (RefreshMonitor (unreachable_remote frozen_clock) (sample_store ''UPSERTED'' 100) world0))
         \<lparr>iteration_count := 1, last_chunks := 60\<rparr>, world0)))) = 60
   \<and> iteration_count (fst (step_state (monitor_cycle example_config (unreachable_remote frozen_clock)
      ((fst (RefreshMonitor (unreachable_remote frozen_clock) (sample_store ''UPSERTED'' 100) world0))
         \<lparr>iteration_count := 1, last_chunks := 60\<rparr>, world0)))) = 1"
proof -
  let ?st = "sample_store ''UPSERTED'' 100"
  let ?eB = "busy_remote frozen_clock" and ?eU = "unreachable_remote frozen_clock"
  let ?mB = "(fst (RefreshMonitor ?eB ?st world0))\<lparr>iteration_count := 1, last_chunks := 60\<rparr>"
  let ?mU = "(fst (RefreshMonitor ?eU ?st world0))\<lparr>iteration_count := 1, last_chunks := 60\<rparr>"
  let ?d = "sample_store ''syncing'' 100"
  have tB: "\<not> timed_out example_config ?eB ?mB (clock_reads world0)"
    by (simp add: timed_out_def elapsed_at_def RefreshMonitor_fields busy_remote_def
          scripted_remote_fields frozen_clock_def example_config_def)
  have tU: "\<not> timed_out example_config ?eU ?mU (clock_reads world0)"
    by (simp add: timed_out_def elapsed_at_def RefreshMonitor_fields unreachable_remote_def
          scripted_remote_fields frozen_clock_def example_config_def)
  have fB: "fetch_at example_config ?eB ?mB (fetches world0) = Status_json ?d"
    by (simp add: busy_remote_def scripted_remote_fetch_at)
  have fU: "fetch_fails (fetch_at example_config ?eU ?mU (fetches world0))"
    by (simp add: unreachable_remote_def scripted_remote_fetch_at fetch_fails_def)
  have cB: "classify (get_or (ds_status ?d) ''UNKNOWN'') = Busy"
    by (simp add: sample_store_def get_or_def classify_syncing)
  note B = chunk_delta_against_previous_successful_poll [of example_config ?eB ?mB world0 ?d]
  note U = chunk_delta_against_previous_successful_poll [of example_config ?eU ?mU world0 ?d]
  from B tB fB have 1: "last_chunks (fst (step_state (monitor_cycle example_config ?eB (?mB, world0)))) = 100"
    by (simp add: sample_store_def get_or_def)
  from B tB fB cB have "monitor_cycle example_config ?eB (?mB, world0) =
             Continue (polled ?mB ?d,
               asyncio_sleep (STATUS_CHECK_INTERVAL example_config)
                 (print_msg
                    (Busy_report (store_name ?mB) (upper (get_or (ds_status ?d) ''UNKNOWN''))
                       (iteration_count ?mB + 1)
                       (chunk_info_text (get_or (ds_totalChunks ?d) 0)
                          (if iteration_count ?mB \<ge> 1
                           then get_or (ds_totalChunks ?d) 0 - last_chunks ?mB else 0))
                       (format_elapsed_time (elapsed_at ?eB ?mB (clock_reads world0)))
                       (STATUS_CHECK_INTERVAL example_config))
                    (world0\<lparr>clock_reads := clock_reads world0 + 1, fetches := fetches world0 + 1\<rparr>)))"
    by blast
  then have 2: "busy_chunk_infos (printed (snd (step_state
        (monitor_cycle example_config ?eB (?mB, world0))))) = [''Chunks: 100 (+40 since last check)'']"
    by (simp add: world_effect_fields world0_fields sample_store_def get_or_def
          chunk_info_text_def fmt_commas_small Let_def)
  from U tU fU have 3: "last_chunks (fst (step_state (monitor_cycle example_config ?eU (?mU, world0)))) = 60"
    and 4: "iteration_count (fst (step_state (monitor_cycle example_config ?eU (?mU, world0)))) = 1"
    by simp_all
  from 1 2 3 4 show ?thesis by blast
qed

text \<open>
  Claim C6 as stated fails at the third poll of its own example: when the chunk count is
  140 after 140, the computed delta is 0 and the chunk line carries no delta at all, the
  same line a first successful poll prints; a delta of +0 is never reported.
\<close>

theorem zero_chunk_delta_is_not_reported:
  "busy_chunk_infos
     (printed (snd (step_state
        (monitor_passes 8 example_config chunk_remote
           (RefreshMonitor chunk_remote (sample_store ''UPSERTED'' 100) world0))))) \<noteq>
     [''Chunks: 100'', ''Chunks: 140 (+40 since last check)'',
      ''Chunks: 140 (+0 since last check)'', ''Chunks: 200 (+60 since last check)'']
   \<and> busy_chunk_infos
        (printed (snd (step_state
           (monitor_passes 8 example_config chunk_remote
              (RefreshMonitor chunk_remote (sample_store ''UPSERTED'' 100) world0))))) ! 2 =
       ''Chunks: 140''
   \<and> chunk_info_text 140 0 = ''Chunks: 140''"
proof (intro conjI)
  show "busy_chunk_infos
     (printed (snd (step_state
        (monitor_passes 8 example_config chunk_remote
           (RefreshMonitor chunk_remote (sample_store ''UPSERTED'' 100) world0))))) \<noteq>
     [''Chunks: 100'', ''Chunks: 140 (+40 since last check)'',
      ''Chunks: 140 (+0 since last check)'', ''Chunks: 200 (+60 since last check)'']"
    unfolding chunk_run by simp
  show "busy_chunk_infos
        (printed (snd (step_state
           (monitor_passes 8 example_config chunk_remote
              (RefreshMonitor chunk_remote (sample_store ''UPSERTED'' 100) world0))))) ! 2 =
       ''Chunks: 140''"
    unfolding chunk_run by simp
  show "chunk_info_text 140 0 = ''Chunks: 140''"
    by (simp add: chunk_info_text_def fmt_commas_small)
qed

lemma trigger_loop_fields:
  "fetches (snd (snd (trigger_loop e url headers as v w))) = fetches w
   \<and> clock_reads (snd (snd (trigger_loop e url headers as v w))) = clock_reads w
   \<and> printed (snd (snd (trigger_loop e url headers as v w))) = printed w
   \<and> slept (snd (snd (trigger_loop e url headers as v w))) = slept w
   \<and> logged (snd (snd (trigger_loop e url headers as v w))) = logged w"
proof (induction as arbitrary: v w)
  case Nil
  show ?case by simp
next
  case (Cons a as)
  show ?case
    unfolding trigger_loop_step [of e url headers a as v w] Let_def
    by (simp add: Cons.IH)
qed

lemma trigger_refresh_fields:
  "fetches (snd (trigger_refresh cfg e sid w)) = fetches w"
  "clock_reads (snd (trigger_refresh cfg e sid w)) = clock_reads w"
  "printed (snd (trigger_refresh cfg e sid w)) = printed w"
  "slept (snd (trigger_refresh cfg e sid w)) = slept w"
proof -
  obtain r v' w' where t: "trigger_loop e (refresh_url cfg sid) (get_headers (api_key cfg)) attempts
      \<lparr>last_error_status = 0, last_error_message = [], last_error_headers = []\<rparr> w = (r, v', w')"
    using prod_cases3 by blast
  from trigger_loop_fields [of e "refresh_url cfg sid" "get_headers (api_key cfg)" attempts
          "\<lparr>last_error_status = 0, last_error_message = [], last_error_headers = []\<rparr>" w]
  have f: "fetches w' = fetches w" "clock_reads w' = clock_reads w" "printed w' = printed w"
    "slept w' = slept w"
    by (simp_all add: t)
  show "fetches (snd (trigger_refresh cfg e sid w)) = fetches w"
    "clock_reads (snd (trigger_refresh cfg e sid w)) = clock_reads w"
    "printed (snd (trigger_refresh cfg e sid w)) = printed w"
    "slept (snd (trigger_refresh cfg e sid w)) = slept w"
    by (simp_all add: trigger_refresh_unfold t f report_trigger_failure_fields)
qed

lemma refresh_and_monitor_unfold:
  "refresh_and_monitor cfg e st w =
     (let monitor = fst (RefreshMonitor e st w);
          t = trigger_refresh cfg e (ds_id st) (snd (RefreshMonitor e st w))
      in if \<not> fst t
         then Some (monitor\<lparr>error := Some ''Failed to trigger refresh'', completed := True\<rparr>, snd t)
         else monitor_refresh_progress cfg e monitor (snd t))"
proof -
  obtain m0 w1 where R: "RefreshMonitor e st w = (m0, w1)"
    by (cases "RefreshMonitor e st w")
  from RefreshMonitor_fields(2) [of e st w] R have sid: "store_id m0 = ds_id st" by simp
  obtain b w2 where T: "trigger_refresh cfg e (ds_id st) w1 = (b, w2)"
    by (cases "trigger_refresh cfg e (ds_id st) w1")
  show ?thesis by (simp add: refresh_and_monitor_def Let_def R sid T)
qed

text \<open>
  Claim C7. \<open>refresh_and_monitor\<close> creates the monitor and calls the trigger. When the
  trigger fails it returns that monitor with \<open>error\<close> and \<open>completed\<close> set: the iteration
  count is 0, no status fetch has been issued, nothing has been printed and no sleep taken,
  so the monitor loop was never entered. When the trigger succeeds the result is that of
  \<open>monitor_refresh_progress\<close> on the fresh monitor.
\<close>

theorem refresh_and_monitor_sequencing:
  "(\<not> fst (trigger_refresh cfg e (ds_id st) (snd (RefreshMonitor e st w))) \<longrightarrow>
      refresh_and_monitor cfg e st w =
        Some ((fst (RefreshMonitor e st w))
                \<lparr>error := Some ''Failed to trigger refresh'', completed := True\<rparr>,
              snd (trigger_refresh cfg e (ds_id st) (snd (RefreshMonitor e st w))))
      \<and> iteration_count (fst (RefreshMonitor e st w)) = 0
      \<and> fetches (snd (trigger_refresh cfg e (ds_id st) (snd (RefreshMonitor e st w)))) = fetches w
      \<and> printed (snd (trigger_refresh cfg e (ds_id st) (snd (RefreshMonitor e st w)))) = printed w
      \<and> slept (snd (trigger_refresh cfg e (ds_id st) (snd (RefreshMonitor e st w)))) = slept w)
   \<and> (fst (trigger_refresh cfg e (ds_id st) (snd (RefreshMonitor e st w))) \<longrightarrow>
        refresh_and_monitor cfg e st w =
          monitor_refresh_progress cfg e (fst (RefreshMonitor e st w))
            (snd (trigger_refresh cfg e (ds_id st) (snd (RefreshMonitor e st w)))))"
  by (simp add: refresh_and_monitor_unfold Let_def trigger_refresh_fields RefreshMonitor_fields)

lemma trigger_fails_example:
  "\<not> fst (trigger_refresh example_config (remote_failing_first 5 500 ''Internal Server Error'')
            (ds_id (sample_store ''UPSERTED'' 100))
            (snd (RefreshMonitor (remote_failing_first 5 500 ''Internal Server Error'')
                    (sample_store ''UPSERTED'' 100) world0)))"
proof -
  have "\<forall>k<5. variant_fails example_config (remote_failing_first 5 500 ''Internal Server Error'')
      (ds_id (sample_store ''UPSERTED'' 100))
      (snd (RefreshMonitor (remote_failing_first 5 500 ''Internal Server Error'')
              (sample_store ''UPSERTED'' 100) world0)) k"
    by (simp add: variant_fails_def variant_reply_def attempt_reply_def remote_failing_first_def
          request_outcome_def RefreshMonitor_world0 length_attempts)
  then show ?thesis using trigger_refresh_fails_iff by blast
qed

lemma trigger_succeeds_scripted:
  "trigger_refresh cfg (scripted_remote clock script dflt) sid w =
     (True, w\<lparr>requests := requests w @ map (variant_request cfg sid) [0..<Suc 0]\<rparr>)"
  by (rule trigger_refresh_success)
     (simp_all add: variant_fails_def variant_reply_def attempt_reply_def scripted_remote_fields
        request_outcome_def)

lemma upper_Upserted: "upper ''Upserted'' = ''UPSERTED''"
  by (simp add: upper_def upper_char_def)

lemma completing_passes:
  "is_break (monitor_passes 2 example_config completing_remote
      (fst (RefreshMonitor completing_remote (sample_store ''UPSERTED'' 100) world0),
       print_msg (Started ''Docs'' 100) (world0\<lparr>clock_reads := 1, requests := rs\<rparr>)))"
  "(\<lambda>r. (completed (fst r), error (fst r), final_status (fst r), iteration_count (fst r),
         fetches (snd r)))
     (step_state (monitor_passes 2 example_config completing_remote
        (fst (RefreshMonitor completing_remote (sample_store ''UPSERTED'' 100) world0),
         print_msg (Started ''Docs'' 100) (world0\<lparr>clock_reads := 1, requests := rs\<rparr>)))) =
   (True, None, Some ''UPSERTED'', 2, 2)"
  by (simp_all add: numeral_nat monitor_cycle_def time_time_def fetch_document_store_status_def
        handle_store_data_def Let_def completing_remote_def scripted_remote_def
        frozen_clock_def sample_store_def RefreshMonitor_def world0_def example_config_def
        get_or_def upper_syncing upper_Upserted REFRESHABLE_STATUSES_def BUSY_STATUSES_def
        print_msg_def asyncio_sleep_def log_msg_def chunk_info_text_def py_str_def)

lemma completing_result:
  "\<exists>m w'. refresh_and_monitor example_config completing_remote (sample_store ''UPSERTED'' 100) world0
             = Some (m, w')
          \<and> completed m \<and> error m = None \<and> final_status m = Some ''UPSERTED''
          \<and> iteration_count m = 2 \<and> fetches w' = 2"
proof -
  let ?st = "sample_store ''UPSERTED'' 100"
  let ?m0 = "fst (RefreshMonitor completing_remote ?st world0)"
  let ?rs = "map (variant_request example_config (ds_id ?st)) [0..<Suc 0]"
  let ?w = "print_msg (Started ''Docs'' 100) (world0\<lparr>clock_reads := 1, requests := ?rs\<rparr>)"
  let ?p = "monitor_passes 2 example_config completing_remote (?m0, ?w)"
  from completing_passes(1) [of ?rs] obtain r where r: "?p = Break r"
    by (cases ?p) simp_all
  from monitor_passes_Break_loop [OF r]
  have l: "monitor_loop example_config completing_remote (?m0, ?w) = Some r" .
  have "refresh_and_monitor example_config completing_remote ?st world0 =
      monitor_loop example_config completing_remote (?m0, ?w)"
    by (simp add: refresh_and_monitor_unfold Let_def completing_remote_def
          trigger_succeeds_scripted monitor_refresh_progress_def RefreshMonitor_fields
          sample_store_def get_or_def world0_def)
  with l have "refresh_and_monitor example_config completing_remote ?st world0 = Some (fst r, snd r)"
    by simp
  moreover from completing_passes(2) [of ?rs] r
  have "completed (fst r) \<and> error (fst r) = None \<and> final_status (fst r) = Some ''UPSERTED''
      \<and> iteration_count (fst r) = 2 \<and> fetches (snd r) = 2"
    by simp
  ultimately show ?thesis by blast
qed

text \<open>
  A remote that rejects all five variants: the outcome is the failed monitor, iteration
  count 0, no fetch issued. A remote that accepts the first variant and reports the store
  busy once and then upserted: the outcome is the monitor loop's, completed after two polls.
\<close>

theorem refresh_and_monitor_sequencing_witness:
  "map_option (\<lambda>r. (error (fst r), completed (fst r), iteration_count (fst r), fetches (snd r),
                    printed (snd r)))
     (refresh_and_monitor example_config (remote_failing_first 5 500 ''Internal Server Error'')
        (sample_store ''UPSERTED'' 100) world0)
     = Some (Some ''Failed to trigger refresh'', True, 0, 0, [])
   \<and> (\<exists>m w'. monitor_refresh_progress example_config completing_remote
                 (fst (RefreshMonitor completing_remote (sample_store ''UPSERTED'' 100) world0))
                 (snd (trigger_refresh example_config completing_remote
                         (ds_id (sample_store ''UPSERTED'' 100))
                         (snd (RefreshMonitor completing_remote (sample_store ''UPSERTED'' 100) world0))))
               = Some (m, w')
             \<and> completed m \<and> final_status m = Some ''UPSERTED'' \<and> iteration_count m = 2)"
proof -
  let ?st = "sample_store ''UPSERTED'' 100"
  let ?eF = "remote_failing_first 5 500 ''Internal Server Error''"
  note F = refresh_and_monitor_sequencing [of example_config ?eF ?st world0]
  note C = refresh_and_monitor_sequencing [of example_config completing_remote ?st world0]
  from F trigger_fails_example have 1: "map_option (\<lambda>r. (error (fst r), completed (fst r),
        iteration_count (fst r), fetches (snd r), printed (snd r)))
     (refresh_and_monitor example_config ?eF ?st world0)
     = Some (Some ''Failed to trigger refresh'', True, 0, 0, [])"
    by (simp add: world0_fields)
  have "fst (trigger_refresh example_config completing_remote (ds_id ?st)
               (snd (RefreshMonitor completing_remote ?st world0)))"
    by (simp add: completing_remote_def trigger_succeeds_scripted)
  with C have "refresh_and_monitor example_config completing_remote ?st world0 =
      monitor_refresh_progress example_config completing_remote
        (fst (RefreshMonitor completing_remote ?st world0))
        (snd (trigger_refresh example_config completing_remote (ds_id ?st)
                (snd (RefreshMonitor completing_remote ?st world0))))"
    by blast
  with completing_result have 2: "\<exists>m w'. monitor_refresh_progress example_config completing_remote
                 (fst (RefreshMonitor completing_remote ?st world0))
                 (snd (trigger_refresh example_config completing_remote (ds_id ?st)
                         (snd (RefreshMonitor completing_remote ?st world0))))
               = Some (m, w')
             \<and> completed m \<and> final_status m = Some ''UPSERTED'' \<and> iteration_count m = 2"
    by auto
  from 1 2 show ?thesis by blast
qed

lemma monitor_passes_Break_outcome:
  "monitor_passes n cfg e (m, w) = Break (m', w') \<Longrightarrow> error m = None \<Longrightarrow> final_status m = None \<Longrightarrow>
   completed m'
   \<and> ((\<exists>t. error m' = Some (''Timeout after '' @ t)) \<and> final_status m' = None
        \<or> error m' = None \<and> final_status m' = Some ''UPSERTED'')"
proof (induction n arbitrary: m w)
  case 0
  then show ?case by simp
next
  case (Suc n)
  show ?case
  proof (cases "monitor_cycle cfg e (m, w)")
    case (Break r)
    with Suc.prems(1) have "monitor_cycle cfg e (m, w) = Break (m', w')" by simp
    from monitor_cycle_Break [OF this] Suc.prems(2,3) show ?thesis
      by (auto simp: polled_fields)
  next
    case (Continue mw1)
    obtain m1 w1 where mw1: "mw1 = (m1, w1)" by (cases mw1)
    from Continue mw1 have c: "monitor_cycle cfg e (m, w) = Continue (m1, w1)" by simp
    from monitor_cycle_Continue [OF c] Suc.prems(2,3)
    have "error m1 = None" "final_status m1 = None" by (auto simp: polled_fields)
    moreover from Suc.prems(1) c have "monitor_passes n cfg e (m1, w1) = Break (m', w')" by simp
    ultimately show ?thesis by (intro Suc.IH)
  qed
qed

lemma monitor_loop_outcome:
  assumes "monitor_loop cfg e (m, w) = Some (m', w')" and "error m = None" and "final_status m = None"
  shows "completed m'
   \<and> ((\<exists>t. error m' = Some (''Timeout after '' @ t)) \<and> final_status m' = None
        \<or> error m' = None \<and> final_status m' = Some ''UPSERTED'')"
proof -
  from monitor_loop_Some_passes [OF assms(1)] obtain n where
    "monitor_passes (Suc n) cfg e (m, w) = Break (m', w')" by blast
  from monitor_passes_Break_outcome [OF this assms(2,3)] show ?thesis .
qed

lemma refresh_and_monitor_outcome:
  assumes "refresh_and_monitor cfg e st w = Some (m, w')"
  shows "completed m
    \<and> (if \<not> fst (trigger_refresh cfg e (ds_id st) (snd (RefreshMonitor e st w)))
       then error m = Some ''Failed to trigger refresh'' \<and> final_status m = None
       else (\<exists>t. error m = Some (''Timeout after '' @ t)) \<and> final_status m = None
            \<or> error m = None \<and> final_status m = Some ''UPSERTED'')"
proof (cases "fst (trigger_refresh cfg e (ds_id st) (snd (RefreshMonitor e st w)))")
  case False
  with assms show ?thesis
    by (auto simp: refresh_and_monitor_unfold Let_def RefreshMonitor_fields)
next
  case True
  with assms have "monitor_loop cfg e
      (fst (RefreshMonitor e st w),
       print_msg (Started (store_name (fst (RefreshMonitor e st w)))
                    (initial_chunks (fst (RefreshMonitor e st w))))
         (snd (trigger_refresh cfg e (ds_id st) (snd (RefreshMonitor e st w))))) = Some (m, w')"
    by (simp add: refresh_and_monitor_unfold Let_def monitor_refresh_progress_def)
  from monitor_loop_outcome [OF this] True show ?thesis
    by (simp add: RefreshMonitor_fields)
qed

lemma display_summary_loop_counts:
  "display_summary_loop ms (a, b, rs) =
     (a + int (length (filter (\<lambda>m. \<not> truthy (error m)) ms)),
      b + int (length (filter (\<lambda>m. truthy (error m)) ms)),
      rs @ map (\<lambda>m. if truthy (error m) then ''FAILED - '' @ py_str (error m)
                     else ''SUCCESS - Final Status: '' @ py_str (final_status m)) ms)"
  by (induction ms arbitrary: a b rs) simp_all

lemma display_summary_counts:
  "fst (display_summary ms) = int (length (filter (\<lambda>m. \<not> truthy (error m)) ms))"
  "fst (snd (display_summary ms)) = int (length (filter (\<lambda>m. truthy (error m)) ms))"
  by (simp_all add: display_summary_def display_summary_loop_counts)

lemma truthy_outcome:
  "(\<exists>t. v = Some (''Timeout after '' @ t)) \<or> v = Some ''Failed to trigger refresh'' \<or> v = None
   \<Longrightarrow> truthy v = (v \<noteq> None)"
  by (auto simp: truthy_def)

text \<open>
  Claim C10. A monitor returned by \<open>refresh_and_monitor\<close> has \<open>completed\<close> set and exactly
  one of \<open>error\<close> and \<open>final_status\<close>: the trigger-failure error or a timeout error with no
  final status, or the final status \<open>UPSERTED\<close> with no error. Its \<open>error\<close> is true in
  Python's sense exactly when it is set, so \<open>display_summary\<close> counts as failed the returned
  monitors with an error and as successful those without, and the two counts add up to the
  number of monitors.
\<close>

theorem returned_monitor_has_error_or_final_status:
  "(refresh_and_monitor cfg e st w = Some (m, w') \<longrightarrow>
      completed m
      \<and> ((error m \<noteq> None) \<noteq> (final_status m \<noteq> None))
      \<and> truthy (error m) = (error m \<noteq> None)
      \<and> (if \<not> fst (trigger_refresh cfg e (ds_id st) (snd (RefreshMonitor e st w)))
          then error m = Some ''Failed to trigger refresh'' \<and> final_status m = None
          else (\<exists>t. error m = Some (''Timeout after '' @ t)) \<and> final_status m = None
               \<or> error m = None \<and> final_status m = Some ''UPSERTED''))
   \<and> ((\<forall>m \<in> set ms. \<exists>cfg e st w w'. refresh_and_monitor cfg e st w = Some (m, w')) \<longrightarrow>
        fst (display_summary ms) = int (length (filter (\<lambda>m. error m = None) ms))
        \<and> fst (snd (display_summary ms)) = int (length (filter (\<lambda>m. error m \<noteq> None) ms)))
   \<and> fst (display_summary ms) + fst (snd (display_summary ms)) = int (length ms)"
proof (intro conjI impI)
  assume r: "refresh_and_monitor cfg e st w = Some (m, w')"
  note o = refresh_and_monitor_outcome [OF r]
  from o show "completed m" by simp
  from o show "(error m \<noteq> None) \<noteq> (final_status m \<noteq> None)"
    by (auto split: if_splits)
  from o show "truthy (error m) = (error m \<noteq> None)"
    by (intro truthy_outcome) (auto split: if_splits)
  from o show "if \<not> fst (trigger_refresh cfg e (ds_id st) (snd (RefreshMonitor e st w)))
          then error m = Some ''Failed to trigger refresh'' \<and> final_status m = None
          else (\<exists>t. error m = Some (''Timeout after '' @ t)) \<and> final_status m = None
               \<or> error m = None \<and> final_status m = Some ''UPSERTED''"
    by (rule conjunct2)
next
  assume a: "\<forall>m \<in> set ms. \<exists>cfg e st w w'. refresh_and_monitor cfg e st w = Some (m, w')"
  have t: "truthy (error m) = (error m \<noteq> None)" if "m \<in> set ms" for m
  proof -
    from a that obtain cfg e st w w' where "refresh_and_monitor cfg e st w = Some (m, w')"
      by blast
    from refresh_and_monitor_outcome [OF this] show ?thesis
      by (intro truthy_outcome) (auto split: if_splits)
  qed
  then have "filter (\<lambda>m. \<not> truthy (error m)) ms = filter (\<lambda>m. error m = None) ms"
    and "filter (\<lambda>m. truthy (error m)) ms = filter (\<lambda>m. error m \<noteq> None) ms"
    by (induction ms) simp_all
  then show "fst (display_summary ms) = int (length (filter (\<lambda>m. error m = None) ms))"
    and "fst (snd (display_summary ms)) = int (length (filter (\<lambda>m. error m \<noteq> None) ms))"
    by (simp_all add: display_summary_counts)
next
  have "length (filter (\<lambda>m. \<not> truthy (error m)) ms) + length (filter (\<lambda>m. truthy (error m)) ms)
      = length ms"
    using sum_length_filter_compl [of "\<lambda>m. truthy (error m)" ms] by simp
  then show "fst (display_summary ms) + fst (snd (display_summary ms)) = int (length ms)"
    unfolding display_summary_counts by linarith
qed

lemma failing_trigger_result:
  "refresh_and_monitor example_config (remote_failing_first 5 500 ''Internal Server Error'')
     (sample_store ''UPSERTED'' 100) world0 =
   Some ((fst (RefreshMonitor (remote_failing_first 5 500 ''Internal Server Error'')
                 (sample_store ''UPSERTED'' 100) world0))
           \<lparr>error := Some ''Failed to trigger refresh'', completed := True\<rparr>,
         snd (trigger_refresh example_config (remote_failing_first 5 500 ''Internal Server Error'')
                (ds_id (sample_store ''UPSERTED'' 100))
                (snd (RefreshMonitor (remote_failing_first 5 500 ''Internal Server Error'')
                        (sample_store ''UPSERTED'' 100) world0))))"
  using trigger_fails_example by (simp add: refresh_and_monitor_unfold Let_def)

lemma busy_timeout_result:
  "\<exists>m w'. refresh_and_monitor example_config (busy_remote ticking_clock)
             (sample_store ''UPSERTED'' 100) world0 = Some (m, w')
          \<and> error m = Some ''Timeout after 10m 15s''"
proof -
  let ?e = "busy_remote ticking_clock" and ?st = "sample_store ''UPSERTED'' 100"
  let ?m0 = "fst (RefreshMonitor ?e ?st world0)"
  let ?w = "print_msg (Started (store_name ?m0) (initial_chunks ?m0))
              (snd (trigger_refresh example_config ?e (ds_id ?st) (snd (RefreshMonitor ?e ?st world0))))"
  have c: "clock_reads ?w = 1" "fetches ?w = 0"
    by (simp_all add: world_effect_fields trigger_refresh_fields RefreshMonitor_world0)
  have go: "\<forall>k<40. \<not> timed_out example_config ?e ?m0 (clock_reads ?w + k)
      \<and> fetch_bucket (fetch_at example_config ?e ?m0 (fetches ?w + k)) \<noteq> Some Refreshable"
    unfolding c by (simp add: busy_remote_timed_out busy_remote_bucket ticking_clock_def)
  have out: "timed_out example_config ?e ?m0 (clock_reads ?w + 40)"
    unfolding c by (simp add: busy_remote_timed_out ticking_clock_def)
  have el: "elapsed_at ?e ?m0 (clock_reads ?w + 40) = 615"
    unfolding c
    by (simp add: elapsed_at_def RefreshMonitor_fields busy_remote_def scripted_remote_fields
          ticking_clock_def world0_fields)
  have "refresh_and_monitor example_config ?e ?st world0 = monitor_loop example_config ?e (?m0, ?w)"
    by (simp add: refresh_and_monitor_unfold Let_def busy_remote_def trigger_succeeds_scripted
          monitor_refresh_progress_def)
  with monitor_loop_times_out_after [OF go out] show ?thesis
    by (auto simp: el format_615)
qed

text \<open>
  The three outcomes: a rejected trigger (error set, no final status), a store that becomes
  upserted (final status set, no error), an always-busy store (timeout error, no final
  status); the summary of the first two counts one success and one failure.
\<close>

theorem returned_monitor_has_error_or_final_status_witness:
  "(\<exists>m w'. refresh_and_monitor example_config (remote_failing_first 5 500 ''Internal Server Error'')
              (sample_store ''UPSERTED'' 100) world0 = Some (m, w')
           \<and> completed m \<and> error m = Some ''Failed to trigger refresh'' \<and> final_status m = None
           \<and> truthy (error m))
   \<and> (\<exists>m w'. refresh_and_monitor example_config completing_remote
              (sample_store ''UPSERTED'' 100) world0 = Some (m, w')
           \<and> completed m \<and> error m = None \<and> final_status m = Some ''UPSERTED''
           \<and> \<not> truthy (error m))
   \<and> (\<exists>m w'. refresh_and_monitor example_config (busy_remote ticking_clock)
              (sample_store ''UPSERTED'' 100) world0 = Some (m, w')
           \<and> completed m \<and> error m = Some ''Timeout after 10m 15s'' \<and> final_status m = None
           \<and> truthy (error m))
   \<and> (\<exists>mF wF mD wD.
          refresh_and_monitor example_config (remote_failing_first 5 500 ''Internal Server Error'')
              (sample_store ''UPSERTED'' 100) world0 = Some (mF, wF)
          \<and> refresh_and_monitor example_config completing_remote
              (sample_store ''UPSERTED'' 100) world0 = Some (mD, wD)
          \<and> fst (display_summary [mF, mD]) = 1 \<and> fst (snd (display_summary [mF, mD])) = 1)"
proof -
  let ?st = "sample_store ''UPSERTED'' 100"
  let ?eF = "remote_failing_first 5 500 ''Internal Server Error''"
  let ?eB = "busy_remote ticking_clock"
  obtain mF wF where F: "refresh_and_monitor example_config ?eF ?st world0 = Some (mF, wF)"
    using failing_trigger_result by blast
  obtain mD wD where D: "refresh_and_monitor example_config completing_remote ?st world0 = Some (mD, wD)"
    and D': "error mD = None"
    using completing_result by blast
  obtain mB wB where B: "refresh_and_monitor example_config ?eB ?st world0 = Some (mB, wB)"
    and B': "error mB = Some ''Timeout after 10m 15s''"
    using busy_timeout_result by blast
  note tF = returned_monitor_has_error_or_final_status
              [of example_config ?eF ?st world0 mF wF "[mF, mD]"]
  note tD = returned_monitor_has_error_or_final_status
              [of example_config completing_remote ?st world0 mD wD "[mF, mD]"]
  note tB = returned_monitor_has_error_or_final_status
              [of example_config ?eB ?st world0 mB wB "[mF, mD]"]
  from tF F trigger_fails_example
  have 1: "completed mF \<and> error mF = Some ''Failed to trigger refresh'' \<and> final_status mF = None
      \<and> truthy (error mF)"
    by (auto split: if_splits)
  from tD D D'
  have 2: "completed mD \<and> error mD = None \<and> final_status mD = Some ''UPSERTED''
      \<and> \<not> truthy (error mD)"
    by (auto split: if_splits)
  from tB B B'
  have 3: "completed mB \<and> error mB = Some ''Timeout after 10m 15s'' \<and> final_status mB = None
      \<and> truthy (error mB)"
    by (auto split: if_splits)
  have "\<exists>cfg e st w w'. refresh_and_monitor cfg e st w = Some (mF, w')" using F by blast
  moreover have "\<exists>cfg e st w w'. refresh_and_monitor cfg e st w = Some (mD, w')" using D by blast
  ultimately
  have "\<forall>m \<in> set [mF, mD]. \<exists>cfg e st w w'. refresh_and_monitor cfg e st w = Some (m, w')"
    by simp
  with tF have "fst (display_summary [mF, mD]) = int (length (filter (\<lambda>m. error m = None) [mF, mD]))
      \<and> fst (snd (display_summary [mF, mD])) = int (length (filter (\<lambda>m. error m \<noteq> None) [mF, mD]))"
    by blast
  with 1 2 have 4: "fst (display_summary [mF, mD]) = 1 \<and> fst (snd (display_summary [mF, mD])) = 1"
    by simp
  from F D B 1 2 3 4 show ?thesis by blast
qed

end
